theory Spec2Isabelle
  imports Complex_Main
begin

section \<open>Python values as the pages see them\<close>

text \<open>
  The pages of the dashboard work on decoded JSON: whatever \<^verbatim>\<open>json.loads\<close> or
  \<^verbatim>\<open>response.json()\<close> hands back.  A decoded value is \<^verbatim>\<open>None\<close>, a bool, an int, a
  float, a str, a list or a dict whose keys are strs.  Floats are kept as the rational
  they denote (the literals \<^verbatim>\<open>NaN\<close> and \<^verbatim>\<open>Infinity\<close>, which the decoder also accepts,
  are left out); a dict is the list of its items in insertion order.
\<close>

datatype pyval =
    PNone
  | PBool bool
  | PInt int
  | PFloat rat
  | PStr string
  | PList "pyval list"
  | PDict "(string \<times> pyval) list"

text \<open>The exceptions the modelled code can meet.\<close>

datatype exn =
    TypeError
  | KeyError
  | AttributeError
  | ValueError
  | JSONDecodeError
  | InvalidURL
  | UnicodeEncodeError
  | KeyboardInterrupt

text \<open>
  What evaluating an expression gives: a value, or a raised exception.  \<open>Beyond\<close> marks
  a call into a library with arguments on which this development does not say what the
  library does; it is neither a value nor an exception, and it is carried along like
  one.
\<close>

datatype 'a result = Return 'a | Raise exn | Beyond

fun and_then :: "'a result \<Rightarrow> ('a \<Rightarrow> 'b result) \<Rightarrow> 'b result" where
  "and_then (Return x) f = f x"
| "and_then (Raise e) f = Raise e"
| "and_then Beyond f = Beyond"

text \<open>A list comprehension \<^verbatim>\<open>[f(x) for x in xs]\<close>: the first exception ends it.\<close>

fun comprehension :: "('a \<Rightarrow> 'b result) \<Rightarrow> 'a list \<Rightarrow> 'b list result" where
  "comprehension f [] = Return []"
| "comprehension f (x # xs) =
     and_then (f x) (\<lambda>y. and_then (comprehension f xs) (\<lambda>ys. Return (y # ys)))"

text \<open>Truth value testing (\<^verbatim>\<open>if v\<close>, \<^verbatim>\<open>not v\<close>, \<^verbatim>\<open>a and b\<close>).\<close>

fun truthy :: "pyval \<Rightarrow> bool" where
  "truthy PNone = False"
| "truthy (PBool b) = b"
| "truthy (PInt i) = (i \<noteq> 0)"
| "truthy (PFloat q) = (q \<noteq> 0)"
| "truthy (PStr s) = (s \<noteq> [])"
| "truthy (PList xs) = (xs \<noteq> [])"
| "truthy (PDict kvs) = (kvs \<noteq> [])"

fun startswith :: "string \<Rightarrow> string \<Rightarrow> bool" where
  "startswith s [] = True"
| "startswith [] (p # ps) = False"
| "startswith (c # cs) (p # ps) = (c = p \<and> startswith cs ps)"

fun str_contains :: "string \<Rightarrow> string \<Rightarrow> bool" where
  "str_contains [] sub = (sub = [])"
| "str_contains (c # cs) sub = (startswith (c # cs) sub \<or> str_contains cs sub)"

text \<open>
  \<^verbatim>\<open>k in v\<close> for a str \<open>k\<close>: key membership on a dict, element membership on a list,
  substring test on a str, \<^verbatim>\<open>TypeError\<close> on everything else.
\<close>

fun py_in :: "string \<Rightarrow> pyval \<Rightarrow> bool result" where
  "py_in k (PDict kvs) = Return (k \<in> set (map fst kvs))"
| "py_in k (PList xs) = Return (PStr k \<in> set xs)"
| "py_in k (PStr s) = Return (str_contains s k)"
| "py_in k PNone = Raise TypeError"
| "py_in k (PBool b) = Raise TypeError"
| "py_in k (PInt i) = Raise TypeError"
| "py_in k (PFloat q) = Raise TypeError"

text \<open>
  \<^verbatim>\<open>v[k]\<close> for a str \<open>k\<close>: the item of a dict or \<^verbatim>\<open>KeyError\<close>; a list and a str take
  integer indices only, the other values are not subscriptable: \<^verbatim>\<open>TypeError\<close>.
\<close>

fun getitem :: "pyval \<Rightarrow> string \<Rightarrow> pyval result" where
  "getitem (PDict kvs) k = (case map_of kvs k of Some v \<Rightarrow> Return v | None \<Rightarrow> Raise KeyError)"
| "getitem PNone k = Raise TypeError"
| "getitem (PBool b) k = Raise TypeError"
| "getitem (PInt i) k = Raise TypeError"
| "getitem (PFloat q) k = Raise TypeError"
| "getitem (PStr s) k = Raise TypeError"
| "getitem (PList xs) k = Raise TypeError"

text \<open>\<^verbatim>\<open>v.get(k, d)\<close>: only a dict has the method.\<close>

fun py_get :: "pyval \<Rightarrow> string \<Rightarrow> pyval \<Rightarrow> pyval result" where
  "py_get (PDict kvs) k d = (case map_of kvs k of Some v \<Rightarrow> Return v | None \<Rightarrow> Return d)"
| "py_get PNone k d = Raise AttributeError"
| "py_get (PBool b) k d = Raise AttributeError"
| "py_get (PInt i) k d = Raise AttributeError"
| "py_get (PFloat q) k d = Raise AttributeError"
| "py_get (PStr s) k d = Raise AttributeError"
| "py_get (PList xs) k d = Raise AttributeError"

text \<open>\<^verbatim>\<open>v.items()\<close>: only a dict has the method.\<close>

fun py_items :: "pyval \<Rightarrow> (string \<times> pyval) list result" where
  "py_items (PDict kvs) = Return kvs"
| "py_items PNone = Raise AttributeError"
| "py_items (PBool b) = Raise AttributeError"
| "py_items (PInt i) = Raise AttributeError"
| "py_items (PFloat q) = Raise AttributeError"
| "py_items (PStr s) = Raise AttributeError"
| "py_items (PList xs) = Raise AttributeError"

text \<open>
  \<^verbatim>\<open>for x in v\<close>: the elements of a list, the keys of a dict, the characters of a str
  (each a str of length one); the other values are not iterable.
\<close>

fun py_iter :: "pyval \<Rightarrow> pyval list result" where
  "py_iter (PList xs) = Return xs"
| "py_iter (PDict kvs) = Return (map (\<lambda>kv. PStr (fst kv)) kvs)"
| "py_iter (PStr s) = Return (map (\<lambda>c. PStr [c]) s)"
| "py_iter PNone = Raise TypeError"
| "py_iter (PBool b) = Raise TypeError"
| "py_iter (PInt i) = Raise TypeError"
| "py_iter (PFloat q) = Raise TypeError"

section \<open>The dataframe library\<close>

text \<open>
  A frame is kept as its column labels and its rows, each row the list of its cells.
  The library picks a storage type for each column from the objects it is given, and a
  cell holds its object in that type: a str is kept as that str; in a column of
  numbers an int may be kept as the float of the same value, and \<^verbatim>\<open>None\<close> as
  \<^verbatim>\<open>NaN\<close>.  Which type it picks is not modelled.  A cell of the model therefore says
  which object the cell was made from, not what the stored value is:
  \<^item> \<open>Stored v\<close> is the library's stored form of the object \<open>v\<close>;
  \<^item> \<open>Missing\<close> is a cell for which the row supplied no object; the library fills it
    with the missing value of its column (\<^verbatim>\<open>None\<close> or \<^verbatim>\<open>NaN\<close>).
\<close>

datatype cell = Stored pyval | Missing

record dataframe =
  columns :: "pyval list"
  rows :: "cell list list"

text \<open>\<^verbatim>\<open>pd.DataFrame()\<close>: no columns, no rows.\<close>

definition DataFrame_empty :: dataframe where
  "DataFrame_empty = \<lparr>columns = [], rows = []\<rparr>"

text \<open>\<^verbatim>\<open>df.empty\<close>: one of the two axes has length zero.\<close>

definition empty :: "dataframe \<Rightarrow> bool" where
  "empty df = (columns df = [] \<or> rows df = [])"

fun is_PStr :: "pyval \<Rightarrow> bool" where
  "is_PStr (PStr s) = True"
| "is_PStr v = False"

fun is_PList :: "pyval \<Rightarrow> bool" where
  "is_PList (PList xs) = True"
| "is_PList v = False"

fun elements :: "pyval \<Rightarrow> pyval list" where
  "elements (PList xs) = xs"
| "elements v = []"

definition widest :: "pyval list list \<Rightarrow> nat" where
  "widest rs = foldr (\<lambda>r w. max (length r) w) rs 0"

definition pad :: "nat \<Rightarrow> pyval list \<Rightarrow> cell list" where
  "pad w r = map Stored r @ replicate (w - length r) Missing"

text \<open>
  \<^verbatim>\<open>pd.DataFrame(data, columns=cols)\<close> for \<open>data\<close> a list, as far as this development
  fixes it: \<open>cols\<close> a list of strs, and \<open>data\<close> empty or a list of lists.
  \<^item> No data: a frame with the given columns and no row.
  \<^item> A list of lists: the library lays the rows out in a rectangle as wide as the
    longest row, a shorter row filled up with missing cells on the right; it then wants
    as many labels as the rectangle is wide, and raises \<^verbatim>\<open>ValueError\<close>
    (\<^verbatim>\<open>N columns passed, passed data had K columns\<close>) otherwise.
  Every other shape of argument is \<open>Beyond\<close>.
\<close>

definition DataFrame :: "pyval list \<Rightarrow> pyval \<Rightarrow> dataframe result" where
  "DataFrame data cols =
     (case cols of
        PList labels \<Rightarrow>
          if \<not> list_all is_PStr labels then Beyond
          else if data = [] then Return \<lparr>columns = labels, rows = []\<rparr>
          else if \<not> list_all is_PList data then Beyond
          else
            let cells = map elements data; width = widest cells in
            if length labels \<noteq> width then Raise ValueError
            else Return \<lparr>columns = labels, rows = map (pad width) cells\<rparr>
      | _ \<Rightarrow> Beyond)"

section \<open>Player statistics page: the stats-table normalizer\<close>

text \<open>
  \<^verbatim>\<open>
  def parse_stats_table(stats_json):
      if not stats_json or "headers" not in stats_json or "values" not in stats_json:
          return pd.DataFrame()
      headers = stats_json["headers"]
      rows = [row["values"] for row in stats_json["values"]]
      return pd.DataFrame(rows, columns=headers)
  \<close>
\<close>

definition parse_stats_table :: "pyval \<Rightarrow> dataframe result" where
  "parse_stats_table stats_json =
     (if \<not> truthy stats_json then Return DataFrame_empty
      else and_then (py_in ''headers'' stats_json) (\<lambda>has_headers.
        if \<not> has_headers then Return DataFrame_empty
        else and_then (py_in ''values'' stats_json) (\<lambda>has_values.
          if \<not> has_values then Return DataFrame_empty
          else and_then (getitem stats_json ''headers'') (\<lambda>headers.
            and_then (getitem stats_json ''values'') (\<lambda>vals.
            and_then (py_iter vals) (\<lambda>entries.
            and_then (comprehension (\<lambda>row. getitem row ''values'') entries) (\<lambda>rows.
            DataFrame rows headers)))))))"

text \<open>
  The shape the API documents for an entry of the values list is
  \<^verbatim>\<open>{"values": [cell, ...]}\<close>.  \<open>entry_cells\<close> reads the cells off an entry of that
  shape and is \<open>None\<close> on everything else; the theorems use it to say that an input is
  well-formed.
\<close>

fun entry_cells :: "pyval \<Rightarrow> pyval list option" where
  "entry_cells (PDict kvs) =
     (case map_of kvs ''values'' of Some (PList cells) \<Rightarrow> Some cells | _ \<Rightarrow> None)"
| "entry_cells v = None"

section \<open>Player statistics page: the fetch helpers\<close>

text \<open>
  The stats API is a parameter of the model: a function from the request the page
  makes to the response it receives.  A response is its status code together with what
  the JSON decoder makes of its body: the decoded value, or \<open>None\<close> when the body is
  not UTF-8 encoded JSON and decoding raises.  Failures of the transport itself (no
  connection, a timeout) are not modelled.
\<close>

datatype request =
    Search string
  | Details pyval
  | Career pyval
  | Stats pyval string

record response =
  status_code :: int
  json :: "pyval option"

text \<open>\<^verbatim>\<open>json.loads(data.decode("utf-8"))\<close>, and \<^verbatim>\<open>response.json()\<close>.\<close>

definition loads :: "response \<Rightarrow> pyval result" where
  "loads res = (case json res of Some v \<Rightarrow> Return v | None \<Rightarrow> Raise JSONDecodeError)"

text \<open>\<^verbatim>\<open>try: return e  except: return {}\<close>\<close>

fun or_empty_dict :: "pyval result \<Rightarrow> pyval result" where
  "or_empty_dict (Return v) = Return v"
| "or_empty_dict (Raise e) = Return (PDict [])"
| "or_empty_dict Beyond = Beyond"

text \<open>
  \<^verbatim>\<open>conn.request("GET", path, headers=HEADERS)\<close> of \<^verbatim>\<open>http.client\<close> looks at the path
  before anything is sent: a path with a control character, a space or the character
  \<^verbatim>\<open>DEL\<close> (codes 0 to 32, and 127) is refused with \<^verbatim>\<open>InvalidURL\<close>, and a path that
  then does not encode as ASCII with \<^verbatim>\<open>UnicodeEncodeError\<close>.
\<close>

definition disallowed :: "char \<Rightarrow> bool" where
  "disallowed c = (of_char c \<le> (32::nat) \<or> of_char c = (127::nat))"

definition non_ascii :: "char \<Rightarrow> bool" where
  "non_ascii c = ((128::nat) \<le> of_char c)"

definition putrequest :: "string \<Rightarrow> unit result" where
  "putrequest url =
     (if list_ex disallowed url then Raise InvalidURL
      else if list_ex non_ascii url then Raise UnicodeEncodeError
      else Return ())"

text \<open>
  The pages build their paths with f-strings, \<^verbatim>\<open>f"<before>{v}<after>"\<close>.  A str goes
  into the path as it is.  The text of \<^verbatim>\<open>None\<close> and of a bool is a word, and the text of
  a number is made of digits, a sign, a point and letters, none of which the check
  refuses, so for a number the check is that of the literal parts.  The text of a list
  or a dict is not modelled.
\<close>

fun conn_request :: "string \<Rightarrow> pyval \<Rightarrow> string \<Rightarrow> unit result" where
  "conn_request before (PStr s) after = putrequest (before @ s @ after)"
| "conn_request before PNone after = putrequest (before @ ''None'' @ after)"
| "conn_request before (PBool b) after =
     putrequest (before @ (if b then ''True'' else ''False'') @ after)"
| "conn_request before (PInt i) after = putrequest (before @ after)"
| "conn_request before (PFloat q) after = putrequest (before @ after)"
| "conn_request before (PList xs) after = Beyond"
| "conn_request before (PDict kvs) after = Beyond"

text \<open>
  \<^verbatim>\<open>
  def search_players(query: str):
      conn = http.client.HTTPSConnection(BASE_URL)
      conn.request("GET", f"/stats/v1/player/search?plrN={query}", headers=HEADERS)
      res = conn.getresponse()
      data = res.read()
      conn.close()
      try:
          return json.loads(data.decode("utf-8"))
      except:
          return {}
  \<close>
  The request stands before the \<^verbatim>\<open>try\<close>: what it raises leaves the function.
\<close>

definition search_players :: "(request \<Rightarrow> response) \<Rightarrow> string \<Rightarrow> pyval result" where
  "search_players api query =
     and_then (conn_request ''/stats/v1/player/search?plrN='' (PStr query) []) (\<lambda>sent.
       or_empty_dict (loads (api (Search query))))"

text \<open>The same with the path \<^verbatim>\<open>f"/stats/v1/player/{player_id}"\<close>.\<close>

definition get_player_details :: "(request \<Rightarrow> response) \<Rightarrow> pyval \<Rightarrow> pyval result" where
  "get_player_details api player_id =
     and_then (conn_request ''/stats/v1/player/'' player_id []) (\<lambda>sent.
       or_empty_dict (loads (api (Details player_id))))"

text \<open>
  \<^verbatim>\<open>
  response = requests.get(url, headers=HEADERS)
  if response.status_code == 200:
      return response.json()
  return {}
  \<close>
  \<^verbatim>\<open>requests\<close> quotes the characters of the URL that need it, so this request is sent
  whatever the id is.
\<close>

definition get_player_stats :: "(request \<Rightarrow> response) \<Rightarrow> pyval \<Rightarrow> string \<Rightarrow> pyval result" where
  "get_player_stats api player_id stat_type =
     (let response = api (Stats player_id stat_type) in
      if status_code response = 200 then loads response else Return (PDict []))"

section \<open>Player statistics page: the candidates of a search\<close>

text \<open>
  \<^verbatim>\<open>player_options = {p["name"]: p for p in results["player"]}\<close> is a dict keyed by
  whatever the candidates carry as name.  Such a dict is the list of its items in
  insertion order.  A list or a dict is not hashable and cannot be a key; two keys are
  the same key when they are equal in Python's sense, where bools and numbers compare
  by their numeric value.
\<close>

type_synonym pydict = "(pyval \<times> pyval) list"

fun hashable :: "pyval \<Rightarrow> bool" where
  "hashable (PList xs) = False"
| "hashable (PDict kvs) = False"
| "hashable v = True"

fun numeric :: "pyval \<Rightarrow> rat option" where
  "numeric (PBool b) = Some (if b then 1 else 0)"
| "numeric (PInt i) = Some (of_int i)"
| "numeric (PFloat q) = Some q"
| "numeric v = None"

definition same_key :: "pyval \<Rightarrow> pyval \<Rightarrow> bool" where
  "same_key a b =
     (case numeric a of
        Some x \<Rightarrow> (case numeric b of Some y \<Rightarrow> x = y | None \<Rightarrow> False)
      | None \<Rightarrow> (case numeric b of Some y \<Rightarrow> False | None \<Rightarrow> a = b))"

text \<open>\<^verbatim>\<open>d[k] = v\<close>: a key already there keeps its place and its key object.\<close>

fun setitem :: "pydict \<Rightarrow> pyval \<Rightarrow> pyval \<Rightarrow> pydict" where
  "setitem [] k v = [(k, v)]"
| "setitem ((k', v') # d) k v =
     (if same_key k' k then (k', v) # d else (k', v') # setitem d k v)"

fun lookup :: "pydict \<Rightarrow> pyval \<Rightarrow> pyval result" where
  "lookup [] k = Raise KeyError"
| "lookup ((k', v) # d) k = (if same_key k' k then Return v else lookup d k)"

text \<open>\<^verbatim>\<open>d[k]\<close>\<close>

definition dict_getitem :: "pydict \<Rightarrow> pyval \<Rightarrow> pyval result" where
  "dict_getitem d k = (if hashable k then lookup d k else Raise TypeError)"

fun player_options_into :: "pydict \<Rightarrow> pyval list \<Rightarrow> pydict result" where
  "player_options_into d [] = Return d"
| "player_options_into d (p # ps) =
     and_then (getitem p ''name'') (\<lambda>name.
       if hashable name then player_options_into (setitem d name p) ps
       else Raise TypeError)"

definition player_options :: "pyval list \<Rightarrow> pydict result" where
  "player_options ps = player_options_into [] ps"


section \<open>What a page renders\<close>

text \<open>
  A run of a page is the list of the elements it has put on the screen, in order, and
  how the run ended.  The text of an element built by an f-string is kept as its
  pieces: the literal parts and the values formatted into them.  The pictographs that
  decorate the literals of the pages are left out of the strings below.  The elements
  of a tab or a column are listed where the script creates them.  The calls that put
  an element on the screen are taken not to raise.
\<close>

datatype piece = Lit string | Val pyval

datatype element =
    Title string
  | Text_input string
  | Selectbox string "pyval list"
  | Tabs "string list"
  | Subheader string
  | Write "piece list"
  | Markdown "piece list"
  | Image "piece list" nat
  | Columns nat
  | Dataframe dataframe
  | Warning string
  | Error "piece list"
  | Success string

text \<open>
  \<open>Done\<close>: the script reached its end.  \<open>Raised e\<close>: the exception \<open>e\<close> left the
  script, and nothing after it was rendered.  \<open>Unknown\<close>: the run met \<open>Beyond\<close>.
\<close>

datatype ending = Done | Raised exn | Unknown

type_synonym run = "element list \<times> ending"

fun followed_by :: "run \<Rightarrow> run \<Rightarrow> run" where
  "followed_by (es, Done) (es', end') = (es @ es', end')"
| "followed_by (es, Raised e) r = (es, Raised e)"
| "followed_by (es, Unknown) r = (es, Unknown)"

fun evaluating :: "'a result \<Rightarrow> ('a \<Rightarrow> run) \<Rightarrow> run" where
  "evaluating (Return x) f = f x"
| "evaluating (Raise e) f = ([], Raised e)"
| "evaluating Beyond f = ([], Unknown)"

definition render :: "element list \<Rightarrow> run" where
  "render es = (es, Done)"

section \<open>Player statistics page: the profile tab\<close>

text \<open>
  \<^verbatim>\<open>s.replace(old, new)\<close> on strs, left to right, matches not overlapping.  The
  counter says how many characters of the match just replaced are still to be dropped.
\<close>

fun replace_from :: "nat \<Rightarrow> string \<Rightarrow> string \<Rightarrow> string \<Rightarrow> string" where
  "replace_from n [] old new = []"
| "replace_from (Suc n) (c # cs) old new = replace_from n cs old new"
| "replace_from 0 (c # cs) old new =
     (if startswith (c # cs) old then new @ replace_from (length old - 1) cs old new
      else c # replace_from 0 cs old new)"

definition str_replace :: "string \<Rightarrow> string \<Rightarrow> string \<Rightarrow> string" where
  "str_replace s old new =
     (if old = [] then new @ concat (map (\<lambda>c. c # new) s) else replace_from 0 s old new)"

text \<open>\<^verbatim>\<open>v.replace(old, new)\<close>: only a str has the method.\<close>

fun py_replace :: "pyval \<Rightarrow> string \<Rightarrow> string \<Rightarrow> pyval result" where
  "py_replace (PStr s) old new = Return (PStr (str_replace s old new))"
| "py_replace v old new = Raise AttributeError"

text \<open>
  \<^verbatim>\<open>
  if "image" in player_details:
      img_url = player_details["image"].replace("http://", "https://")
      st.image(img_url, width=150)
  elif "faceImageId" in selected_player and selected_player["faceImageId"]:
      img_url = f"https://www.cricbuzz.com/a/img/v1/152x152/i1/c{selected_player['faceImageId']}.jpg"
      st.image(img_url, width=150)
  else:
      st.image("https://placehold.co/150x150/800000/FFFFFF?text=No+Image", width=150)
  \<close>
\<close>

definition no_image :: run where
  "no_image =
     render [Image [Lit ''https://placehold.co/150x150/800000/FFFFFF?text=No+Image''] 150]"

definition player_image :: "pyval \<Rightarrow> pyval \<Rightarrow> run" where
  "player_image selected_player player_details =
     evaluating (py_in ''image'' player_details) (\<lambda>has_image.
       if has_image then
         evaluating (getitem player_details ''image'') (\<lambda>image.
         evaluating (py_replace image ''http://'' ''https://'') (\<lambda>img_url.
           render [Image [Val img_url] 150]))
       else
         evaluating (py_in ''faceImageId'' selected_player) (\<lambda>has_face.
           if has_face then
             evaluating (getitem selected_player ''faceImageId'') (\<lambda>face.
               if truthy face then
                 render [Image [Lit ''https://www.cricbuzz.com/a/img/v1/152x152/i1/c'',
                                Val face, Lit ''.jpg''] 150]
               else no_image)
           else no_image))"

text \<open>
  \<^verbatim>\<open>
  st.write(f"### {selected_player['name']} ({selected_player['teamName']})")
  st.write(f"DOB: {selected_player.get('dob', 'N/A')}")
  \<close>
  and then the picture.
\<close>

definition profile_header :: "pyval \<Rightarrow> pyval \<Rightarrow> run" where
  "profile_header selected_player player_details =
     evaluating (getitem selected_player ''name'') (\<lambda>name.
     evaluating (getitem selected_player ''teamName'') (\<lambda>team.
       followed_by (render [Write [Lit ''### '', Val name, Lit '' ('', Val team, Lit '')'']])
      (evaluating (py_get selected_player ''dob'' (PStr ''N/A'')) (\<lambda>dob.
       followed_by (render [Write [Lit ''DOB: '', Val dob]])
      (player_image selected_player player_details)))))"

text \<open>\<^verbatim>\<open>st.write(f"<label>{player_details.get(<key>, 'N/A')}")\<close>\<close>

definition write_field :: "string \<Rightarrow> string \<Rightarrow> pyval \<Rightarrow> run" where
  "write_field label key player_details =
     evaluating (py_get player_details key (PStr ''N/A'')) (\<lambda>v.
       render [Write [Lit label, Val v]])"

definition profile_fields :: "pyval \<Rightarrow> run" where
  "profile_fields player_details =
     followed_by (render [Subheader ''Player Details''])
    (followed_by (write_field ''**Role:** '' ''role'' player_details)
    (followed_by (write_field ''**Batting Style:** '' ''bat'' player_details)
    (followed_by (write_field ''**Bowling Style:** '' ''bowl'' player_details)
    (followed_by (write_field ''**Teams:** '' ''teams'' player_details)
                 (write_field ''**Birth Place:** '' ''birthPlace'' player_details)))))"

text \<open>
  One column of the rankings:
  \<^verbatim>\<open>
  st.write("### Batting")
  if "bat" in rankings:
      for k, v in rankings["bat"].items():
          st.write(f"{k}: {v}")
  else:
      st.write("No rankings available")
  \<close>
\<close>

definition ranking_column :: "string \<Rightarrow> string \<Rightarrow> pyval \<Rightarrow> run" where
  "ranking_column heading key rankings =
     followed_by (render [Write [Lit heading]])
    (evaluating (py_in key rankings) (\<lambda>has_key.
       if has_key then
         evaluating (getitem rankings key) (\<lambda>category.
         evaluating (py_items category) (\<lambda>kvs.
           render (map (\<lambda>kv. Write [Val (PStr (fst kv)), Lit '': '', Val (snd kv)]) kvs)))
       else render [Write [Lit ''No rankings available'']]))"

definition rankings_section :: "pyval \<Rightarrow> run" where
  "rankings_section player_details =
     evaluating (py_in ''rankings'' player_details) (\<lambda>has_rankings.
       if \<not> has_rankings then render []
       else
         evaluating (getitem player_details ''rankings'') (\<lambda>rankings.
           if \<not> truthy rankings then render []
           else
             followed_by (render [Subheader ''ICC Rankings'', Columns 3])
            (followed_by (ranking_column ''### Batting'' ''bat'' rankings)
            (followed_by (ranking_column ''### Bowling'' ''bowl'' rankings)
                         (ranking_column ''### All-Rounder'' ''all'' rankings)))))"

text \<open>\<^verbatim>\<open>row_data = [f.get("name"), f.get("debut"), f.get("lastPlayed")]\<close>\<close>

definition career_row :: "pyval \<Rightarrow> pyval result" where
  "career_row f =
     and_then (py_get f ''name'' PNone) (\<lambda>name.
     and_then (py_get f ''debut'' PNone) (\<lambda>debut.
     and_then (py_get f ''lastPlayed'' PNone) (\<lambda>lastPlayed.
       Return (PList [name, debut, lastPlayed]))))"

definition no_career :: "element list" where
  "no_career = [Warning ''No career debut information available.'']"

text \<open>
  The body of the \<^verbatim>\<open>try\<close> of the career section.  It renders at its end only, so it
  is a computation of the elements to show.
  \<^verbatim>\<open>
  career_json = json.loads(career_data.decode("utf-8"))
  if "values" in career_json and career_json["values"]:
      career_rows = []
      for f in career_json["values"]:
          row_data = [f.get("name"), f.get("debut"), f.get("lastPlayed")]
          career_rows.append(row_data)
      if career_rows:
          career_df = pd.DataFrame(career_rows, columns=["Format", "Debut", "Last Played"])
          st.dataframe(career_df, use_container_width=True)
      else:
          st.warning("No career debut information available.")
  else:
      st.warning("No career debut information available.")
  \<close>
\<close>

definition career_table :: "response \<Rightarrow> element list result" where
  "career_table res =
     and_then (loads res) (\<lambda>career_json.
     and_then (py_in ''values'' career_json) (\<lambda>has_values.
       if \<not> has_values then Return no_career
       else
         and_then (getitem career_json ''values'') (\<lambda>vals.
           if \<not> truthy vals then Return no_career
           else
             and_then (py_iter vals) (\<lambda>fs.
             and_then (comprehension career_row fs) (\<lambda>career_rows.
               if career_rows \<noteq> [] then
                 and_then (DataFrame career_rows
                             (PList [PStr ''Format'', PStr ''Debut'', PStr ''Last Played'']))
                   (\<lambda>career_df. Return [Dataframe career_df])
               else Return no_career)))))"

text \<open>
  The career section: the heading, the request for the player's career with the path
  \<^verbatim>\<open>f"/stats/v1/player/{selected_player['id']}/career"\<close>, which stands before the
  \<^verbatim>\<open>try\<close>, and the \<^verbatim>\<open>try\<close> with its bare \<^verbatim>\<open>except\<close>, which turns every exception of
  its body into a warning.
\<close>

definition career_section :: "(request \<Rightarrow> response) \<Rightarrow> pyval \<Rightarrow> run" where
  "career_section api selected_player =
     followed_by (render [Subheader ''Career Debut Information''])
    (evaluating (getitem selected_player ''id'') (\<lambda>player_id.
     evaluating (conn_request ''/stats/v1/player/'' player_id ''/career'') (\<lambda>sent.
       case career_table (api (Career player_id)) of
         Return es \<Rightarrow> render es
       | Raise e \<Rightarrow> render [Warning ''Could not load career debut information.'']
       | Beyond \<Rightarrow> ([], Unknown))))"

text \<open>
  \<^verbatim>\<open>
  if "webURL" in player_details:
      st.markdown(f"[View on Cricbuzz]({player_details['webURL']})")
  \<close>
\<close>

definition web_link :: "pyval \<Rightarrow> run" where
  "web_link player_details =
     evaluating (py_in ''webURL'' player_details) (\<lambda>has_url.
       if has_url then
         evaluating (getitem player_details ''webURL'') (\<lambda>url.
           render [Markdown [Lit ''[View on Cricbuzz]('', Val url, Lit '')'']])
       else render [])"

text \<open>Everything under \<^verbatim>\<open>if player_details:\<close>.\<close>

definition details_block :: "(request \<Rightarrow> response) \<Rightarrow> pyval \<Rightarrow> pyval \<Rightarrow> run" where
  "details_block api selected_player player_details =
     (if truthy player_details then
        followed_by (profile_fields player_details)
       (followed_by (rankings_section player_details)
       (followed_by (career_section api selected_player)
                    (web_link player_details)))
      else render [])"

definition profile_tab :: "(request \<Rightarrow> response) \<Rightarrow> pyval \<Rightarrow> pyval \<Rightarrow> run" where
  "profile_tab api selected_player player_details =
     followed_by (profile_header selected_player player_details)
                 (details_block api selected_player player_details)"

section \<open>Player statistics page: the stats tabs and the page\<close>

text \<open>
  \<^verbatim>\<open>
  st.subheader("Batting Stats")
  batting_stats = get_player_stats(selected_player["id"], "batting")
  df_bat = parse_stats_table(batting_stats)
  if not df_bat.empty:
      st.dataframe(df_bat, use_container_width=True)
  else:
      st.warning("No batting stats available.")
  \<close>
  and the same for bowling.
\<close>

definition stats_tab ::
  "(request \<Rightarrow> response) \<Rightarrow> pyval \<Rightarrow> string \<Rightarrow> string \<Rightarrow> string \<Rightarrow> run" where
  "stats_tab api selected_player heading stat_type nothing =
     followed_by (render [Subheader heading])
    (evaluating (getitem selected_player ''id'') (\<lambda>player_id.
     evaluating (get_player_stats api player_id stat_type) (\<lambda>stats.
     evaluating (parse_stats_table stats) (\<lambda>df.
       if \<not> empty df then render [Dataframe df] else render [Warning nothing]))))"

text \<open>
  \<^verbatim>\<open>st.selectbox("Select a player:", list(player_options.keys()))\<close> gives back the
  option the user picked; it starts on the first option, and on no options at all it
  gives \<^verbatim>\<open>None\<close>.  The user's pick is the parameter \<open>pick\<close>, a position in the list.
\<close>

definition selectbox :: "pyval list \<Rightarrow> nat \<Rightarrow> pyval" where
  "selectbox options pick =
     (if options = [] then PNone
      else if pick < length options then options ! pick
      else options ! 0)"

definition no_players :: run where
  "no_players = render [Warning ''No players found. Try another name.'']"

text \<open>
  The page, for the name typed into the text box (\<open>player_name\<close>) and the user's pick in
  the select box.  The source:
  \<^verbatim>\<open>
  player_name = st.text_input("Enter player name (e.g. Kohli, Dhoni, Smith):")
  if player_name:
      results = search_players(player_name)
      if "player" in results and results["player"]:
          player_options = {p["name"]: p for p in results["player"]}
          selected_name = st.selectbox("Select a player:", list(player_options.keys()))
          selected_player = player_options[selected_name]
          player_details = get_player_details(selected_player["id"])
          tabs = st.tabs(["Profile", "Batting Stats", "Bowling Stats"])
          ...
      else:
          st.warning("No players found. Try another name.")
  \<close>
\<close>

definition show_top_stats :: "(request \<Rightarrow> response) \<Rightarrow> string \<Rightarrow> nat \<Rightarrow> run" where
  "show_top_stats api player_name pick =
     followed_by
       (render [Title ''Player Stats & Profile'',
                Text_input ''Enter player name (e.g. Kohli, Dhoni, Smith):''])
       (if player_name \<noteq> [] then
          evaluating (search_players api player_name) (\<lambda>results.
          evaluating (py_in ''player'' results) (\<lambda>has_player.
            if \<not> has_player then no_players
            else
              evaluating (getitem results ''player'') (\<lambda>players.
                if \<not> truthy players then no_players
                else
                  evaluating (py_iter players) (\<lambda>ps.
                  evaluating (player_options ps) (\<lambda>options.
                    let selected_name = selectbox (map fst options) pick in
                    followed_by (render [Selectbox ''Select a player:'' (map fst options)])
                   (evaluating (dict_getitem options selected_name) (\<lambda>selected_player.
                    evaluating (getitem selected_player ''id'') (\<lambda>player_id.
                    evaluating (get_player_details api player_id) (\<lambda>player_details.
                      followed_by (render [Tabs [''Profile'', ''Batting Stats'', ''Bowling Stats'']])
                     (followed_by (profile_tab api selected_player player_details)
                     (followed_by
                        (stats_tab api selected_player ''Batting Stats'' ''batting''
                           ''No batting stats available.'')
                        (stats_tab api selected_player ''Bowling Stats'' ''bowling''
                           ''No bowling stats available.''))))))))))))
        else render [])"

section \<open>SQL page: running a query\<close>

text \<open>
  \<^verbatim>\<open>
  def run_query(conn, query):
      try:
          df = pd.read_sql(query, conn)
          return df
      except Exception as e:
          st.error(f"Query Error: {e}")
          return None
  \<close>
  The database behind \<^verbatim>\<open>pd.read_sql\<close> is a parameter: for the query text and the
  connection it is given, it answers with a frame (\<open>Inr\<close>) or fails (\<open>Inl\<close>).  A failure
  is an exception of class \<^verbatim>\<open>Exception\<close>, kept with its text, or one outside that class
  (\<^verbatim>\<open>KeyboardInterrupt\<close>), which \<^verbatim>\<open>except Exception\<close> does not catch.  The result of
  \<open>run_query\<close> is what the function hands to its caller, \<open>Some\<close> frame or \<^verbatim>\<open>None\<close>, or
  the exception that leaves it, with the elements it rendered.
\<close>

datatype failure = Exception string | Interrupt

definition run_query ::
  "(string \<Rightarrow> 'conn \<Rightarrow> failure + dataframe) \<Rightarrow> 'conn \<Rightarrow> string
     \<Rightarrow> dataframe option result \<times> element list" where
  "run_query read_sql conn query =
     (case read_sql query conn of
        Inr df \<Rightarrow> (Return (Some df), [])
      | Inl (Exception e) \<Rightarrow> (Return None, [Error [Lit ''Query Error: '', Val (PStr e)]])
      | Inl Interrupt \<Rightarrow> (Raise KeyboardInterrupt, []))"

text \<open>
  The handler of the button:
  \<^verbatim>\<open>
  if st.button("Run Query"):
      if query_input.strip():
          with st.spinner("Executing query..."):
              df = run_query(conn, query_input)
          if df is not None:
              st.subheader("Query Results")
              st.dataframe(df, use_container_width=True)
              st.success("Query executed successfully!")
          else:
              st.error("Query failed. Please check your SQL syntax or database tables.")
      else:
          st.warning("Please enter a query to run.")
  \<close>
  \<^verbatim>\<open>query_input.strip()\<close> is true when some character of the text is not whitespace;
  which characters the str library counts as whitespace is the parameter \<open>isspace\<close>.
\<close>

definition run_button ::
  "(char \<Rightarrow> bool) \<Rightarrow> (string \<Rightarrow> 'conn \<Rightarrow> failure + dataframe) \<Rightarrow> 'conn \<Rightarrow> string \<Rightarrow> run" where
  "run_button isspace read_sql conn query_input =
     (if \<not> list_all isspace query_input then
        (case run_query read_sql conn query_input of
           (Return (Some df), es) \<Rightarrow>
             render (es @ [Subheader ''Query Results'', Dataframe df,
                           Success ''Query executed successfully!''])
         | (Return None, es) \<Rightarrow>
             render (es @ [Error [Lit ''Query failed. Please check your SQL syntax or database tables.'']])
         | (Raise e, es) \<Rightarrow> (es, Raised e)
         | (Beyond, es) \<Rightarrow> (es, Unknown))
      else render [Warning ''Please enter a query to run.''])"

section \<open>Auxiliary facts\<close>

subsection \<open>Dicts and the normalizer\<close>

lemma in_dict_iff: "(k \<in> fst ` set kvs) = (map_of kvs k \<noteq> None)"
  by (simp add: map_of_eq_None_iff)

lemma parse_absent_key:
  "map_of kvs ''headers'' = None \<or> map_of kvs ''values'' = None \<Longrightarrow>
   parse_stats_table (PDict kvs) = Return DataFrame_empty"
  by (auto simp add: parse_stats_table_def in_dict_iff simp del: map_of_eq_None_iff)

lemma parse_falsy: "\<not> truthy j \<Longrightarrow> parse_stats_table j = Return DataFrame_empty"
  by (simp add: parse_stats_table_def)

lemma parse_present:
  "map_of kvs ''headers'' = Some h \<Longrightarrow> map_of kvs ''values'' = Some v \<Longrightarrow>
   parse_stats_table (PDict kvs) =
     and_then (py_iter v) (\<lambda>entries.
       and_then (comprehension (\<lambda>row. getitem row ''values'') entries) (\<lambda>rows.
         DataFrame rows h))"
  by (auto simp add: parse_stats_table_def in_dict_iff simp del: map_of_eq_None_iff)

lemma entry_cells_getitem:
  "entry_cells e = Some r \<Longrightarrow> getitem e ''values'' = Return (PList r)"
  by (cases e) (auto split: option.splits pyval.splits)

lemma comprehension_entries:
  "map entry_cells es = map Some rs \<Longrightarrow>
   comprehension (\<lambda>row. getitem row ''values'') es = Return (map PList rs)"
proof (induction es arbitrary: rs)
  case Nil
  then show ?case by simp
next
  case (Cons e es)
  then obtain r rs' where rs: "rs = r # rs'" "entry_cells e = Some r"
    "map entry_cells es = map Some rs'"
    by (cases rs) auto
  with Cons.IH [of rs'] show ?case
    by (simp add: entry_cells_getitem)
qed

lemma DataFrame_lists:
  "list_all is_PStr hs \<Longrightarrow>
   DataFrame (map PList rs) (PList hs) =
     (if rs = [] then Return \<lparr>columns = hs, rows = []\<rparr>
      else if length hs \<noteq> widest rs then Raise ValueError
      else Return \<lparr>columns = hs, rows = map (pad (widest rs)) rs\<rparr>)"
  by (simp add: DataFrame_def list_all_iff comp_def Let_def)

lemma widest_uniform:
  "\<forall>r\<in>set rs. length r = n \<Longrightarrow> widest rs = (if rs = [] then 0 else n)"
  unfolding widest_def by (induction rs) auto

lemma pad_full: "length r = n \<Longrightarrow> pad n r = map Stored r"
  by (simp add: pad_def)

lemma DataFrame_uniform:
  assumes "list_all is_PStr hs" and "\<forall>r\<in>set rs. length r = length hs"
  shows "DataFrame (map PList rs) (PList hs) = Return \<lparr>columns = hs, rows = map (map Stored) rs\<rparr>"
proof (cases "rs = []")
  case True
  with assms(1) DataFrame_lists [of hs "[]"] show ?thesis by simp
next
  case False
  with widest_uniform [OF assms(2)] have w: "widest rs = length hs" by simp
  have "map (pad (length hs)) rs = map (map Stored) rs"
    using assms(2) by (simp add: pad_full)
  with False w assms(1) show ?thesis by (simp add: DataFrame_lists)
qed

lemma parse_well_formed:
  assumes "map_of kvs ''headers'' = Some (PList hs)" and "list_all is_PStr hs"
    and "map_of kvs ''values'' = Some (PList es)" and "map entry_cells es = map Some rs"
  shows "parse_stats_table (PDict kvs) =
     (if rs = [] then Return \<lparr>columns = hs, rows = []\<rparr>
      else if length hs \<noteq> widest rs then Raise ValueError
      else Return \<lparr>columns = hs, rows = map (pad (widest rs)) rs\<rparr>)"
  using assms by (simp add: parse_present comprehension_entries DataFrame_lists)

subsection \<open>Keys of the candidate dict\<close>









subsection \<open>Requests\<close>

lemma putrequest_append:
  "(putrequest (a @ b) = Return ()) = (putrequest a = Return () \<and> putrequest b = Return ())"
  by (auto simp add: putrequest_def)

lemma putrequest_search_prefix: "putrequest ''/stats/v1/player/search?plrN='' = Return ()"
  by (simp add: putrequest_def disallowed_def non_ascii_def)

lemma search_players_sent:
  "putrequest query = Return () \<Longrightarrow>
   search_players api query = or_empty_dict (loads (api (Search query)))"
  using putrequest_append [of "''/stats/v1/player/search?plrN=''" query] putrequest_search_prefix
  by (simp add: search_players_def)

subsection \<open>The profile tab\<close>

lemma followed_by_Done: "followed_by (es, Done) r = (es @ fst r, snd r)"
  by (cases r) simp

lemma and_then_Return:
  "(and_then m f = Return y) = (\<exists>x. m = Return x \<and> f x = Return y)"
  by (cases m) simp_all

lemma career_row_cases:
  "(\<exists>cells. career_row f = Return (PList cells) \<and> length cells = 3) \<or>
   career_row f = Raise AttributeError"
  by (cases f) (auto simp add: career_row_def split: option.splits)

lemma career_rows_shape:
  "comprehension career_row fs = Return rs \<Longrightarrow>
   \<exists>cs. rs = map PList cs \<and> (\<forall>c\<in>set cs. length c = 3)"
proof (induction fs arbitrary: rs)
  case Nil
  then show ?case by simp
next
  case (Cons f fs)
  from career_row_cases [of f] Cons.prems
  obtain cells where f: "career_row f = Return (PList cells)" "length cells = 3"
    by auto
  with Cons.prems obtain rs' where rs': "comprehension career_row fs = Return rs'"
    "rs = PList cells # rs'"
    by (cases "comprehension career_row fs") auto
  from Cons.IH [OF rs'(1)] obtain cs where "rs' = map PList cs" "\<forall>c\<in>set cs. length c = 3"
    by blast
  with rs'(2) f(2) have "rs = map PList (cells # cs) \<and> (\<forall>c\<in>set (cells # cs). length c = 3)"
    by simp
  then show ?case by blast
qed

lemma career_rows_not_beyond: "comprehension career_row fs \<noteq> Beyond"
proof (induction fs)
  case Nil
  show ?case by simp
next
  case (Cons f fs)
  from career_row_cases [of f] Cons.IH show ?case
    by (cases "comprehension career_row fs") auto
qed

lemma career_frame:
  assumes "comprehension career_row fs = Return rs"
  shows "\<exists>df. DataFrame rs (PList [PStr ''Format'', PStr ''Debut'', PStr ''Last Played''])
           = Return df"
proof -
  from career_rows_shape [OF assms] obtain cs where
    cs: "rs = map PList cs" "\<forall>c\<in>set cs. length c = 3" by blast
  then have "DataFrame (map PList cs) (PList [PStr ''Format'', PStr ''Debut'', PStr ''Last Played''])
      = Return \<lparr>columns = [PStr ''Format'', PStr ''Debut'', PStr ''Last Played''], rows = map (map Stored) cs\<rparr>"
    by (intro DataFrame_uniform) simp_all
  with cs(1) show ?thesis by simp
qed

lemma py_in_not_beyond: "py_in k v \<noteq> Beyond"
  by (cases v) simp_all

lemma getitem_not_beyond: "getitem v k \<noteq> Beyond"
  by (cases v) (simp_all split: option.splits)

lemma py_iter_not_beyond: "py_iter v \<noteq> Beyond"
  by (cases v) simp_all

lemma and_then_not_beyond:
  "m \<noteq> Beyond \<Longrightarrow> (\<And>x. m = Return x \<Longrightarrow> f x \<noteq> Beyond) \<Longrightarrow> and_then m f \<noteq> Beyond"
  by (cases m) simp_all

lemma career_table_not_beyond: "career_table res \<noteq> Beyond"
  unfolding career_table_def
proof (intro and_then_not_beyond)
  show "loads res \<noteq> Beyond" by (simp add: loads_def split: option.splits)
next
  fix career_json
  show "py_in ''values'' career_json \<noteq> Beyond" by (rule py_in_not_beyond)
next
  fix career_json has_values
  show "(if \<not> has_values then Return no_career
         else and_then (getitem career_json ''values'')
          (\<lambda>vals. if \<not> truthy vals then Return no_career
             else and_then (py_iter vals)
               (\<lambda>fs. and_then (comprehension career_row fs)
                  (\<lambda>career_rows. if career_rows \<noteq> []
                     then and_then (DataFrame career_rows
                             (PList [PStr ''Format'', PStr ''Debut'', PStr ''Last Played'']))
                           (\<lambda>career_df. Return [Dataframe career_df])
                     else Return no_career)))) \<noteq> Beyond"
  proof (cases has_values)
    case False
    then show ?thesis by simp
  next
    case True
    have "and_then (getitem career_json ''values'')
          (\<lambda>vals. if \<not> truthy vals then Return no_career
             else and_then (py_iter vals)
               (\<lambda>fs. and_then (comprehension career_row fs)
                  (\<lambda>career_rows. if career_rows \<noteq> []
                     then and_then (DataFrame career_rows
                             (PList [PStr ''Format'', PStr ''Debut'', PStr ''Last Played'']))
                           (\<lambda>career_df. Return [Dataframe career_df])
                     else Return no_career))) \<noteq> Beyond"
    proof (intro and_then_not_beyond getitem_not_beyond)
      fix vals
      show "(if \<not> truthy vals then Return no_career
             else and_then (py_iter vals)
               (\<lambda>fs. and_then (comprehension career_row fs)
                  (\<lambda>career_rows. if career_rows \<noteq> []
                     then and_then (DataFrame career_rows
                             (PList [PStr ''Format'', PStr ''Debut'', PStr ''Last Played'']))
                           (\<lambda>career_df. Return [Dataframe career_df])
                     else Return no_career))) \<noteq> Beyond"
      proof (cases "truthy vals")
        case False
        then show ?thesis by simp
      next
        case True
        have "and_then (py_iter vals)
               (\<lambda>fs. and_then (comprehension career_row fs)
                  (\<lambda>career_rows. if career_rows \<noteq> []
                     then and_then (DataFrame career_rows
                             (PList [PStr ''Format'', PStr ''Debut'', PStr ''Last Played'']))
                           (\<lambda>career_df. Return [Dataframe career_df])
                     else Return no_career)) \<noteq> Beyond"
        proof (intro and_then_not_beyond py_iter_not_beyond career_rows_not_beyond)
          fix fs rs assume "comprehension career_row fs = Return rs"
          from career_frame [OF this] show "(if rs \<noteq> []
                     then and_then (DataFrame rs
                             (PList [PStr ''Format'', PStr ''Debut'', PStr ''Last Played'']))
                           (\<lambda>career_df. Return [Dataframe career_df])
                     else Return no_career) \<noteq> Beyond"
            by auto
        qed
        with True show ?thesis by simp
      qed
    qed
    with True show ?thesis by simp
  qed
qed

lemma career_table_shape:
  assumes "career_table res = Return es"
  shows "es = [Warning ''No career debut information available.''] \<or> (\<exists>df. es = [Dataframe df])"
  using assms
  by (auto simp add: career_table_def and_then_Return no_career_def split: if_splits)

lemma career_table_undecodable:
  "json res = None \<Longrightarrow> career_table res = Raise JSONDecodeError"
  by (simp add: career_table_def loads_def)

lemma career_table_no_values:
  assumes "json res = Some (PDict ckvs)"
    and "map_of ckvs ''values'' = None \<or> (\<exists>v. map_of ckvs ''values'' = Some v \<and> \<not> truthy v)"
  shows "career_table res = Return [Warning ''No career debut information available.'']"
  using assms
  by (auto simp add: career_table_def loads_def no_career_def in_dict_iff
        simp del: map_of_eq_None_iff)

lemma career_section_eq:
  assumes "getitem selected_player ''id'' = Return player_id"
    and "conn_request ''/stats/v1/player/'' player_id ''/career'' = Return ()"
  shows "career_section api selected_player =
     (Subheader ''Career Debut Information'' #
      (case career_table (api (Career player_id)) of
         Return es \<Rightarrow> es
       | Raise e \<Rightarrow> [Warning ''Could not load career debut information.'']
       | Beyond \<Rightarrow> []), Done)"
  using assms career_table_not_beyond [of "api (Career player_id)"]
  by (cases "career_table (api (Career player_id))")
     (simp_all add: career_section_def render_def)

lemma career_elements:
  "(case career_table res of
      Return es \<Rightarrow> es
    | Raise e \<Rightarrow> [Warning ''Could not load career debut information.'']
    | Beyond \<Rightarrow> []) = es' \<Longrightarrow>
   es' = [Warning ''Could not load career debut information.''] \<or>
   es' = [Warning ''No career debut information available.''] \<or>
   (\<exists>df. es' = [Dataframe df])"
  using career_table_not_beyond [of res] career_table_shape [of res]
  by (cases "career_table res") auto

lemma profile_fields_dict:
  "profile_fields (PDict kvs) =
     ([Subheader ''Player Details'',
       Write [Lit ''**Role:** '',
              Val (case map_of kvs ''role'' of Some v \<Rightarrow> v | None \<Rightarrow> PStr ''N/A'')],
       Write [Lit ''**Batting Style:** '',
              Val (case map_of kvs ''bat'' of Some v \<Rightarrow> v | None \<Rightarrow> PStr ''N/A'')],
       Write [Lit ''**Bowling Style:** '',
              Val (case map_of kvs ''bowl'' of Some v \<Rightarrow> v | None \<Rightarrow> PStr ''N/A'')],
       Write [Lit ''**Teams:** '',
              Val (case map_of kvs ''teams'' of Some v \<Rightarrow> v | None \<Rightarrow> PStr ''N/A'')],
       Write [Lit ''**Birth Place:** '',
              Val (case map_of kvs ''birthPlace'' of Some v \<Rightarrow> v | None \<Rightarrow> PStr ''N/A'')]],
      Done)"
  by (simp add: profile_fields_def write_field_def render_def split: option.splits)

lemma rankings_absent:
  "map_of kvs ''rankings'' = None \<or> (\<exists>r. map_of kvs ''rankings'' = Some r \<and> \<not> truthy r) \<Longrightarrow>
   rankings_section (PDict kvs) = ([], Done)"
  by (auto simp add: rankings_section_def render_def in_dict_iff simp del: map_of_eq_None_iff)

lemma web_link_dict:
  "web_link (PDict kvs) =
     ((case map_of kvs ''webURL'' of
         Some url \<Rightarrow> [Markdown [Lit ''[View on Cricbuzz]('', Val url, Lit '')'']]
       | None \<Rightarrow> []), Done)"
  by (cases "map_of kvs ''webURL''")
     (simp_all add: web_link_def render_def in_dict_iff del: map_of_eq_None_iff)

lemma career_row_dict:
  "career_row (PDict f) =
     Return (PList [case map_of f ''name'' of Some v \<Rightarrow> v | None \<Rightarrow> PNone,
                    case map_of f ''debut'' of Some v \<Rightarrow> v | None \<Rightarrow> PNone,
                    case map_of f ''lastPlayed'' of Some v \<Rightarrow> v | None \<Rightarrow> PNone])"
  by (simp add: career_row_def split: option.splits)

lemma career_rows_dicts:
  "comprehension career_row (map PDict fs) =
     Return (map PList (map (\<lambda>f.
       [case map_of f ''name'' of Some v \<Rightarrow> v | None \<Rightarrow> PNone,
        case map_of f ''debut'' of Some v \<Rightarrow> v | None \<Rightarrow> PNone,
        case map_of f ''lastPlayed'' of Some v \<Rightarrow> v | None \<Rightarrow> PNone]) fs))"
  by (induction fs) (simp_all add: career_row_dict)

lemma career_table_dicts:
  assumes "json res = Some (PDict ckvs)" and "map_of ckvs ''values'' = Some (PList (map PDict fs))"
    and "fs \<noteq> []"
  shows "career_table res =
     Return [Dataframe \<lparr>columns = [PStr ''Format'', PStr ''Debut'', PStr ''Last Played''],
        rows = map (\<lambda>f.
          [Stored (case map_of f ''name'' of Some v \<Rightarrow> v | None \<Rightarrow> PNone),
           Stored (case map_of f ''debut'' of Some v \<Rightarrow> v | None \<Rightarrow> PNone),
           Stored (case map_of f ''lastPlayed'' of Some v \<Rightarrow> v | None \<Rightarrow> PNone)]) fs\<rparr>]"
proof -
  let ?cells = "map (\<lambda>f.
          [case map_of f ''name'' of Some v \<Rightarrow> v | None \<Rightarrow> PNone,
           case map_of f ''debut'' of Some v \<Rightarrow> v | None \<Rightarrow> PNone,
           case map_of f ''lastPlayed'' of Some v \<Rightarrow> v | None \<Rightarrow> PNone]) fs"
  have frame: "DataFrame (map PList ?cells)
      (PList [PStr ''Format'', PStr ''Debut'', PStr ''Last Played''])
      = Return \<lparr>columns = [PStr ''Format'', PStr ''Debut'', PStr ''Last Played''],
                rows = map (map Stored) ?cells\<rparr>"
    by (intro DataFrame_uniform) simp_all
  from assms(2) have "''values'' \<in> fst ` set ckvs"
    by (simp add: in_dict_iff del: map_of_eq_None_iff)
  with assms frame show ?thesis
    by (simp add: career_table_def loads_def career_rows_dicts comp_def)
qed

lemma details_block_shape:
  assumes "kvs \<noteq> []"
    and "map_of kvs ''rankings'' = None \<or> (\<exists>r. map_of kvs ''rankings'' = Some r \<and> \<not> truthy r)"
    and "getitem selected_player ''id'' = Return player_id"
    and "conn_request ''/stats/v1/player/'' player_id ''/career'' = Return ()"
  shows "details_block api selected_player (PDict kvs) =
     (fst (profile_fields (PDict kvs)) @
      Subheader ''Career Debut Information'' #
      (case career_table (api (Career player_id)) of
         Return es \<Rightarrow> es
       | Raise e \<Rightarrow> [Warning ''Could not load career debut information.'']
       | Beyond \<Rightarrow> []) @
      fst (web_link (PDict kvs)), Done)"
  using assms(1) rankings_absent [OF assms(2)] career_section_eq [OF assms(3,4), of api]
  by (simp add: details_block_def profile_fields_dict web_link_dict followed_by_Done)

lemma details_block_fields_first:
  "kvs \<noteq> [] \<Longrightarrow>
   take 6 (fst (details_block api selected_player (PDict kvs))) = fst (profile_fields (PDict kvs))"
  by (simp add: details_block_def profile_fields_dict followed_by_Done)

section \<open>The stats-table normalizer\<close>

text \<open>
  Claim C1, as the code has it.  On an input that is empty in Python's sense
  (\<^verbatim>\<open>None\<close>, \<^verbatim>\<open>{}\<close>, \<^verbatim>\<open>[]\<close>, \<^verbatim>\<open>0\<close>, ...) and on a JSON object that lacks the headers
  key or the values key, \<open>parse_stats_table\<close> returns the table with zero headers and
  zero rows and raises nothing.  An object that has both keys is not guarded any
  further: when its values entry is \<^verbatim>\<open>null\<close>, a boolean or a number, iterating over it
  raises \<^verbatim>\<open>TypeError\<close>.  The counterexample after the witness is such an input, for
  which the claim promises the empty table.
\<close>

theorem parse_stats_table_absent:
  "(\<not> truthy stats_json \<longrightarrow>
      parse_stats_table stats_json = Return \<lparr>columns = [], rows = []\<rparr>) \<and>
   (map_of kvs ''headers'' = None \<or> map_of kvs ''values'' = None \<longrightarrow>
      parse_stats_table (PDict kvs) = Return \<lparr>columns = [], rows = []\<rparr>) \<and>
   (map_of kvs' ''headers'' = Some h \<and> map_of kvs' ''values'' = Some v \<and>
    v \<in> {PNone, PBool b, PInt i, PFloat q} \<longrightarrow>
      parse_stats_table (PDict kvs') = Raise TypeError)"
proof (intro conjI impI)
  assume "\<not> truthy stats_json"
  then show "parse_stats_table stats_json = Return \<lparr>columns = [], rows = []\<rparr>"
    by (simp add: parse_falsy DataFrame_empty_def)
next
  assume "map_of kvs ''headers'' = None \<or> map_of kvs ''values'' = None"
  then show "parse_stats_table (PDict kvs) = Return \<lparr>columns = [], rows = []\<rparr>"
    by (simp add: parse_absent_key DataFrame_empty_def)
next
  assume "map_of kvs' ''headers'' = Some h \<and> map_of kvs' ''values'' = Some v \<and>
    v \<in> {PNone, PBool b, PInt i, PFloat q}"
  then show "parse_stats_table (PDict kvs') = Raise TypeError"
    by (auto simp add: parse_present)
qed

theorem parse_stats_table_absent_witness:
  "parse_stats_table (PDict []) = Return \<lparr>columns = [], rows = []\<rparr> \<and>
   parse_stats_table (PDict [(''headers'', PList [PStr ''Year''])])
     = Return \<lparr>columns = [], rows = []\<rparr> \<and>
   parse_stats_table (PDict [(''headers'', PList [PStr ''Year'']), (''values'', PNone)])
     = Raise TypeError"
  using parse_stats_table_absent [of "PDict []" "[(''headers'', PList [PStr ''Year''])]"
      "[(''headers'', PList [PStr ''Year'']), (''values'', PNone)]" "PList [PStr ''Year'']"
      PNone True 0 0]
  by simp

theorem parse_stats_table_number_for_values:
  "parse_stats_table (PDict [(''headers'', PList [PStr ''Year'']), (''values'', PInt 5)])
     = Raise TypeError"
  by (simp add: parse_stats_table_def)

text \<open>
  Claim C2, as the code has it.  For a well-formed input (an object whose headers are
  a list of \<open>N\<close> strs and whose values are a list of \<open>M\<close> entries of the documented
  shape) in which every entry supplies exactly \<open>N\<close> cells, \<open>parse_stats_table\<close> returns
  the table whose labels are the headers, verbatim and in order, and whose \<open>M\<close> rows
  hold, in order, the entries' cells in the form the dataframe stores them (a str as it
  is, a number or \<^verbatim>\<open>null\<close> in the type the library picks for its column).  The frame is
  a rectangle: the counterexample after the witness is a well-formed input whose second
  entry supplies one cell and whose second row has two, the second one a missing cell.
\<close>

theorem parse_stats_table_rectangular:
  assumes "map_of kvs ''headers'' = Some (PList hs)" and "list_all is_PStr hs"
    and "map_of kvs ''values'' = Some (PList es)" and "map entry_cells es = map Some rs"
    and "\<forall>r\<in>set rs. length r = length hs"
  shows "parse_stats_table (PDict kvs) = Return \<lparr>columns = hs, rows = map (map Stored) rs\<rparr>"
proof (cases "rs = []")
  case True
  with assms show ?thesis by (simp add: parse_well_formed)
next
  case False
  with widest_uniform [OF assms(5)] have w: "widest rs = length hs" by simp
  have "map (pad (length hs)) rs = map (map Stored) rs"
    using assms(5) by (simp add: pad_full)
  with False w assms(1-4) show ?thesis by (simp add: parse_well_formed)
qed

theorem parse_stats_table_rectangular_witness:
  "parse_stats_table (PDict
     [(''headers'', PList [PStr ''Year'', PStr ''Runs'']),
      (''values'', PList [PDict [(''values'', PList [PStr ''2019'', PInt 1377])],
                          PDict [(''values'', PList [PStr ''2020'', PInt 431])]])])
   = Return \<lparr>columns = [PStr ''Year'', PStr ''Runs''],
             rows = [[Stored (PStr ''2019''), Stored (PInt 1377)],
                     [Stored (PStr ''2020''), Stored (PInt 431)]]\<rparr>"
  using parse_stats_table_rectangular
    [of "[(''headers'', PList [PStr ''Year'', PStr ''Runs'']),
          (''values'', PList [PDict [(''values'', PList [PStr ''2019'', PInt 1377])],
                              PDict [(''values'', PList [PStr ''2020'', PInt 431])]])]"
        "[PStr ''Year'', PStr ''Runs'']"
        "[PDict [(''values'', PList [PStr ''2019'', PInt 1377])],
          PDict [(''values'', PList [PStr ''2020'', PInt 431])]]"
        "[[PStr ''2019'', PInt 1377], [PStr ''2020'', PInt 431]]"]
  by simp

theorem parse_stats_table_short_row_padded:
  "parse_stats_table (PDict
     [(''headers'', PList [PStr ''Year'', PStr ''Runs'']),
      (''values'', PList [PDict [(''values'', PList [PStr ''2019'', PInt 1377])],
                          PDict [(''values'', PList [PStr ''2020''])]])])
   = Return \<lparr>columns = [PStr ''Year'', PStr ''Runs''],
             rows = [[Stored (PStr ''2019''), Stored (PInt 1377)],
                     [Stored (PStr ''2020''), Missing]]\<rparr>"
  by (simp add: parse_stats_table_def DataFrame_def widest_def pad_def)

text \<open>
  Claim C3, as the code has it.  For a well-formed input containing a row whose cell
  count differs from the header count \<open>N\<close>, \<open>parse_stats_table\<close> raises nothing exactly
  when the longest row has \<open>N\<close> cells; each row then holds its entry's cells, in the form
  the dataframe stores them, followed by missing cells up to \<open>N\<close>.  When the longest row
  has more or fewer than \<open>N\<close> cells, the dataframe constructor's \<^verbatim>\<open>ValueError\<close> leaves
  the function, as in the counterexample after the witness.
\<close>

theorem parse_stats_table_ragged:
  assumes "map_of kvs ''headers'' = Some (PList hs)" and "list_all is_PStr hs"
    and "map_of kvs ''values'' = Some (PList es)" and "map entry_cells es = map Some rs"
    and "r \<in> set rs" and "length r \<noteq> length hs"
  shows "parse_stats_table (PDict kvs) =
     (if widest rs = length hs
      then Return \<lparr>columns = hs, rows = map (pad (length hs)) rs\<rparr>
      else Raise ValueError)"
proof -
  from assms(5) have "rs \<noteq> []" by auto
  with assms(1-4) show ?thesis by (auto simp add: parse_well_formed)
qed

theorem parse_stats_table_ragged_witness:
  "parse_stats_table (PDict
     [(''headers'', PList [PStr ''Year'', PStr ''Runs'']),
      (''values'', PList [PDict [(''values'', PList [PStr ''2019''])],
                          PDict [(''values'', PList [PStr ''2020'', PInt 431])]])])
   = Return \<lparr>columns = [PStr ''Year'', PStr ''Runs''],
             rows = [[Stored (PStr ''2019''), Missing],
                     [Stored (PStr ''2020''), Stored (PInt 431)]]\<rparr>"
  using parse_stats_table_ragged
       [where es = "[PDict [(''values'', PList [PStr ''2019''])],
                     PDict [(''values'', PList [PStr ''2020'', PInt 431])]]"
          and rs = "[[PStr ''2019''], [PStr ''2020'', PInt 431]]"
          and r = "[PStr ''2019'']" and hs = "[PStr ''Year'', PStr ''Runs'']"
          and kvs = "[(''headers'', PList [PStr ''Year'', PStr ''Runs'']),
      (''values'', PList [PDict [(''values'', PList [PStr ''2019''])],
                          PDict [(''values'', PList [PStr ''2020'', PInt 431])]])]"]
  by (simp add: widest_def pad_def)

theorem parse_stats_table_too_few_cells:
  "parse_stats_table (PDict
     [(''headers'', PList [PStr ''Year'', PStr ''Runs'']),
      (''values'', PList [PDict [(''values'', PList [PStr ''2019''])]])])
   = Raise ValueError"
  by (simp add: parse_stats_table_def DataFrame_def widest_def pad_def)

text \<open>
  Claim C9.  When the input has the headers key with \<open>N\<close> labels and the values key
  with an empty list, the result has the \<open>N\<close> labels as its columns and no row; when a
  key is absent the result has no column and no row; so for \<open>N > 0\<close> the two results
  differ.
\<close>

theorem parse_stats_table_no_rows:
  assumes "map_of kvs ''headers'' = Some (PList hs)" and "list_all is_PStr hs"
    and "map_of kvs ''values'' = Some (PList [])"
    and "map_of kvs' ''headers'' = None \<or> map_of kvs' ''values'' = None"
  shows "parse_stats_table (PDict kvs) = Return \<lparr>columns = hs, rows = []\<rparr> \<and>
         parse_stats_table (PDict kvs') = Return \<lparr>columns = [], rows = []\<rparr> \<and>
         (hs \<noteq> [] \<longrightarrow> parse_stats_table (PDict kvs) \<noteq> parse_stats_table (PDict kvs'))"
proof -
  have a: "parse_stats_table (PDict kvs) = Return \<lparr>columns = hs, rows = []\<rparr>"
    using assms(1-3) parse_well_formed [of kvs hs "[]" "[]"] by simp
  have b: "parse_stats_table (PDict kvs') = Return \<lparr>columns = [], rows = []\<rparr>"
    using assms(4) by (simp add: parse_absent_key DataFrame_empty_def)
  from a b show ?thesis by simp
qed

theorem parse_stats_table_no_rows_witness:
  "parse_stats_table (PDict [(''headers'', PList [PStr ''Year'', PStr ''Runs'']),
                             (''values'', PList [])])
     = Return \<lparr>columns = [PStr ''Year'', PStr ''Runs''], rows = []\<rparr> \<and>
   parse_stats_table (PDict [(''values'', PList [])]) = Return \<lparr>columns = [], rows = []\<rparr> \<and>
   parse_stats_table (PDict [(''headers'', PList [PStr ''Year'', PStr ''Runs'']),
                             (''values'', PList [])])
     \<noteq> parse_stats_table (PDict [(''values'', PList [])])"
  using parse_stats_table_no_rows
    [of "[(''headers'', PList [PStr ''Year'', PStr ''Runs'']), (''values'', PList [])]"
        "[PStr ''Year'', PStr ''Runs'']" "[(''values'', PList [])]"]
  by simp

section \<open>The profile tab\<close>

text \<open>
  Claim C4, as the code has it.  The page makes two fetches for the profile tab: the
  player's details, which carry the profile fields and the rankings, and the career.
  Let the details be a non-empty object whose rankings are absent or empty, and let the
  selected candidate have an id that the HTTP client accepts in the path of the career
  request.  Then, whatever the career fetch returns, the block under
  \<^verbatim>\<open>if player_details:\<close> ends without an exception and renders the six elements of the
  profile fields, the career heading, exactly one career element (the table, or one of
  the two warnings) and the web link if there is one.  The career element is the
  could-not-load warning on an undecodable body, the no-information warning on an
  object without values or with empty values, and the populated table, one row per
  entry, on an object whose values are a non-empty list of objects; no rankings are
  rendered.  The career is not independent of the details, though: it is fetched and
  rendered under \<^verbatim>\<open>if player_details:\<close>, so on empty details the block renders nothing.
  The counterexample after the witness is a run of the page in which the details fetch
  fails and the career fetch would succeed: no career is rendered.
\<close>

theorem details_block_career_isolated:
  assumes "kvs \<noteq> []"
    and "map_of kvs ''rankings'' = None \<or>
          (\<exists>r. map_of kvs ''rankings'' = Some r \<and> \<not> truthy r)"
    and "getitem selected_player ''id'' = Return player_id"
    and "conn_request ''/stats/v1/player/'' player_id ''/career'' = Return ()"
  shows
   "(\<exists>es. details_block api selected_player (PDict kvs) =
       ([Subheader ''Player Details'',
        Write [Lit ''**Role:** '',
               Val (case map_of kvs ''role'' of Some v \<Rightarrow> v | None \<Rightarrow> PStr ''N/A'')],
        Write [Lit ''**Batting Style:** '',
               Val (case map_of kvs ''bat'' of Some v \<Rightarrow> v | None \<Rightarrow> PStr ''N/A'')],
        Write [Lit ''**Bowling Style:** '',
               Val (case map_of kvs ''bowl'' of Some v \<Rightarrow> v | None \<Rightarrow> PStr ''N/A'')],
        Write [Lit ''**Teams:** '',
               Val (case map_of kvs ''teams'' of Some v \<Rightarrow> v | None \<Rightarrow> PStr ''N/A'')],
        Write [Lit ''**Birth Place:** '',
               Val (case map_of kvs ''birthPlace'' of Some v \<Rightarrow> v | None \<Rightarrow> PStr ''N/A'')]] @
        Subheader ''Career Debut Information'' # es @
        (case map_of kvs ''webURL'' of
          Some url \<Rightarrow> [Markdown [Lit ''[View on Cricbuzz]('', Val url, Lit '')'']]
        | None \<Rightarrow> []), Done) \<and>
       (es = [Warning ''Could not load career debut information.''] \<or>
        es = [Warning ''No career debut information available.''] \<or>
        (\<exists>df. es = [Dataframe df])) \<and>
       (json (api (Career player_id)) = None \<longrightarrow>
          es = [Warning ''Could not load career debut information.'']) \<and>
       (\<forall>ckvs. json (api (Career player_id)) = Some (PDict ckvs) \<and>
          (map_of ckvs ''values'' = None \<or>
           (\<exists>v. map_of ckvs ''values'' = Some v \<and> \<not> truthy v)) \<longrightarrow>
          es = [Warning ''No career debut information available.'']) \<and>
       (\<forall>ckvs fs. json (api (Career player_id)) = Some (PDict ckvs) \<and>
          map_of ckvs ''values'' = Some (PList (map PDict fs)) \<and> fs \<noteq> [] \<longrightarrow>
          es = [Dataframe \<lparr>columns = [PStr ''Format'', PStr ''Debut'', PStr ''Last Played''],
            rows = map (\<lambda>f.
              [Stored (case map_of f ''name'' of Some v \<Rightarrow> v | None \<Rightarrow> PNone),
               Stored (case map_of f ''debut'' of Some v \<Rightarrow> v | None \<Rightarrow> PNone),
               Stored (case map_of f ''lastPlayed'' of Some v \<Rightarrow> v | None \<Rightarrow> PNone)]) fs\<rparr>])) \<and>
    details_block api selected_player (PDict []) = ([], Done)"
proof -
  define es where "es =
    (case career_table (api (Career player_id)) of
       Return es \<Rightarrow> es
     | Raise e \<Rightarrow> [Warning ''Could not load career debut information.'']
     | Beyond \<Rightarrow> [])"
  have block: "details_block api selected_player (PDict kvs) =
       ([Subheader ''Player Details'',
        Write [Lit ''**Role:** '',
               Val (case map_of kvs ''role'' of Some v \<Rightarrow> v | None \<Rightarrow> PStr ''N/A'')],
        Write [Lit ''**Batting Style:** '',
               Val (case map_of kvs ''bat'' of Some v \<Rightarrow> v | None \<Rightarrow> PStr ''N/A'')],
        Write [Lit ''**Bowling Style:** '',
               Val (case map_of kvs ''bowl'' of Some v \<Rightarrow> v | None \<Rightarrow> PStr ''N/A'')],
        Write [Lit ''**Teams:** '',
               Val (case map_of kvs ''teams'' of Some v \<Rightarrow> v | None \<Rightarrow> PStr ''N/A'')],
        Write [Lit ''**Birth Place:** '',
               Val (case map_of kvs ''birthPlace'' of Some v \<Rightarrow> v | None \<Rightarrow> PStr ''N/A'')]] @
        Subheader ''Career Debut Information'' # es @
        (case map_of kvs ''webURL'' of
          Some url \<Rightarrow> [Markdown [Lit ''[View on Cricbuzz]('', Val url, Lit '')'']]
        | None \<Rightarrow> []), Done)"
    using details_block_shape [OF assms, of api]
    by (simp add: es_def profile_fields_dict web_link_dict)
  have one: "es = [Warning ''Could not load career debut information.''] \<or>
        es = [Warning ''No career debut information available.''] \<or>
        (\<exists>df. es = [Dataframe df])"
    using career_elements [of "api (Career player_id)" es] by (simp add: es_def)
  have undecodable: "es = [Warning ''Could not load career debut information.'']"
    if "json (api (Career player_id)) = None"
    using career_table_undecodable [OF that] by (simp add: es_def)
  have no_values: "es = [Warning ''No career debut information available.'']"
    if "json (api (Career player_id)) = Some (PDict ckvs) \<and>
          (map_of ckvs ''values'' = None \<or>
           (\<exists>v. map_of ckvs ''values'' = Some v \<and> \<not> truthy v))" for ckvs
    using that career_table_no_values [of "api (Career player_id)" ckvs] by (simp add: es_def)
  have populated: "es = [Dataframe \<lparr>columns = [PStr ''Format'', PStr ''Debut'', PStr ''Last Played''],
            rows = map (\<lambda>f.
              [Stored (case map_of f ''name'' of Some v \<Rightarrow> v | None \<Rightarrow> PNone),
               Stored (case map_of f ''debut'' of Some v \<Rightarrow> v | None \<Rightarrow> PNone),
               Stored (case map_of f ''lastPlayed'' of Some v \<Rightarrow> v | None \<Rightarrow> PNone)]) fs\<rparr>]"
    if "json (api (Career player_id)) = Some (PDict ckvs) \<and>
          map_of ckvs ''values'' = Some (PList (map PDict fs)) \<and> fs \<noteq> []" for ckvs fs
    using that career_table_dicts [of "api (Career player_id)" ckvs fs] by (simp add: es_def)
  have none: "details_block api selected_player (PDict []) = ([], Done)"
    by (simp add: details_block_def render_def)
  show ?thesis
    apply (intro conjI exI [of _ es] allI impI)
         apply (rule block)
        apply (rule one)
       apply (erule undecodable)
      apply (erule no_values)
     apply (erule populated)
    apply (rule none)
    done
qed

theorem details_block_career_isolated_witness:
  "details_block
     (\<lambda>r. \<lparr>status_code = 200, json = Some (PDict [(''values'', PList
        [PDict [(''name'', PStr ''test''), (''debut'', PStr ''2011''),
                (''lastPlayed'', PStr ''2024'')],
         PDict [(''name'', PStr ''odi''), (''debut'', PStr ''2008'')]])])\<rparr>)
     (PDict [(''id'', PInt 1413), (''name'', PStr ''Virat Kohli'')])
     (PDict [(''role'', PStr ''Batsman'')])
   = ([Subheader ''Player Details'',
       Write [Lit ''**Role:** '', Val (PStr ''Batsman'')],
       Write [Lit ''**Batting Style:** '', Val (PStr ''N/A'')],
       Write [Lit ''**Bowling Style:** '', Val (PStr ''N/A'')],
       Write [Lit ''**Teams:** '', Val (PStr ''N/A'')],
       Write [Lit ''**Birth Place:** '', Val (PStr ''N/A'')],
       Subheader ''Career Debut Information'',
       Dataframe \<lparr>columns = [PStr ''Format'', PStr ''Debut'', PStr ''Last Played''],
                  rows = [[Stored (PStr ''test''), Stored (PStr ''2011''), Stored (PStr ''2024'')],
                          [Stored (PStr ''odi''), Stored (PStr ''2008''), Stored PNone]]\<rparr>],
      Done)"
proof -
  let ?api = "(\<lambda>r. \<lparr>status_code = 200, json = Some (PDict [(''values'', PList
        [PDict [(''name'', PStr ''test''), (''debut'', PStr ''2011''),
                (''lastPlayed'', PStr ''2024'')],
         PDict [(''name'', PStr ''odi''), (''debut'', PStr ''2008'')]])])\<rparr>)"
  let ?fs = "[[(''name'', PStr ''test''), (''debut'', PStr ''2011''), (''lastPlayed'', PStr ''2024'')],
              [(''name'', PStr ''odi''), (''debut'', PStr ''2008'')]]"
  have "putrequest ''/stats/v1/player//career'' = Return ()"
    by (simp add: putrequest_def disallowed_def non_ascii_def)
  then have sent: "conn_request ''/stats/v1/player/'' (PInt 1413) ''/career'' = Return ()"
    by simp
  from details_block_career_isolated
    [of "[(''role'', PStr ''Batsman'')]"
        "PDict [(''id'', PInt 1413), (''name'', PStr ''Virat Kohli'')]" "PInt 1413" ?api, OF _ _ _ sent]
  obtain es where
    block: "details_block ?api (PDict [(''id'', PInt 1413), (''name'', PStr ''Virat Kohli'')])
       (PDict [(''role'', PStr ''Batsman'')]) =
       ([Subheader ''Player Details'',
       Write [Lit ''**Role:** '', Val (PStr ''Batsman'')],
       Write [Lit ''**Batting Style:** '', Val (PStr ''N/A'')],
       Write [Lit ''**Bowling Style:** '', Val (PStr ''N/A'')],
       Write [Lit ''**Teams:** '', Val (PStr ''N/A'')],
       Write [Lit ''**Birth Place:** '', Val (PStr ''N/A'')]] @
       Subheader ''Career Debut Information'' # es, Done)"
    and populated: "\<forall>ckvs fs. json (?api (Career (PInt 1413))) = Some (PDict ckvs) \<and>
          map_of ckvs ''values'' = Some (PList (map PDict fs)) \<and> fs \<noteq> [] \<longrightarrow>
          es = [Dataframe \<lparr>columns = [PStr ''Format'', PStr ''Debut'', PStr ''Last Played''],
            rows = map (\<lambda>f.
              [Stored (case map_of f ''name'' of Some v \<Rightarrow> v | None \<Rightarrow> PNone),
               Stored (case map_of f ''debut'' of Some v \<Rightarrow> v | None \<Rightarrow> PNone),
               Stored (case map_of f ''lastPlayed'' of Some v \<Rightarrow> v | None \<Rightarrow> PNone)]) fs\<rparr>]"
    by auto
  from populated [rule_format, of "[(''values'', PList (map PDict ?fs))]" ?fs]
  have "es = [Dataframe \<lparr>columns = [PStr ''Format'', PStr ''Debut'', PStr ''Last Played''],
                  rows = [[Stored (PStr ''test''), Stored (PStr ''2011''), Stored (PStr ''2024'')],
                          [Stored (PStr ''odi''), Stored (PStr ''2008''), Stored PNone]]\<rparr>]"
    by simp
  with block show ?thesis by simp
qed

theorem career_skipped_when_details_fail:
  "show_top_stats
     (\<lambda>r. case r of
        Search q \<Rightarrow> \<lparr>status_code = 200, json = Some (PDict [(''player'', PList
          [PDict [(''id'', PInt 1413), (''name'', PStr ''Virat Kohli''),
                  (''teamName'', PStr ''India'')]])])\<rparr>
      | Details i \<Rightarrow> \<lparr>status_code = 502, json = None\<rparr>
      | Career i \<Rightarrow> \<lparr>status_code = 200, json = Some (PDict [(''values'', PList
          [PDict [(''name'', PStr ''test''), (''debut'', PStr ''2011''),
                  (''lastPlayed'', PStr ''2024'')]])])\<rparr>
      | Stats i t \<Rightarrow> \<lparr>status_code = 404, json = None\<rparr>)
     ''kohli'' 0
   = ([Title ''Player Stats & Profile'',
       Text_input ''Enter player name (e.g. Kohli, Dhoni, Smith):'',
       Selectbox ''Select a player:'' [PStr ''Virat Kohli''],
       Tabs [''Profile'', ''Batting Stats'', ''Bowling Stats''],
       Write [Lit ''### '', Val (PStr ''Virat Kohli''), Lit '' ('', Val (PStr ''India''), Lit '')''],
       Write [Lit ''DOB: '', Val (PStr ''N/A'')],
       Image [Lit ''https://placehold.co/150x150/800000/FFFFFF?text=No+Image''] 150,
       Subheader ''Batting Stats'', Warning ''No batting stats available.'',
       Subheader ''Bowling Stats'', Warning ''No bowling stats available.''], Done)"
  by (simp add: show_top_stats_def search_players_def loads_def render_def no_players_def
        putrequest_def disallowed_def non_ascii_def
        player_options_def selectbox_def dict_getitem_def same_key_def get_player_details_def
        profile_tab_def profile_header_def player_image_def no_image_def details_block_def
        stats_tab_def get_player_stats_def parse_stats_table_def DataFrame_empty_def empty_def
        Let_def)

text \<open>
  Claim C7, as the code has it.
  \<^item> For non-empty player details that are a JSON object, the block under
    \<^verbatim>\<open>if player_details:\<close> begins with the heading and the five lines for role, batting
    style, bowling style, teams and birth place, each absent one shown as \<^verbatim>\<open>N/A\<close>.
  \<^item> For the empty details \<^verbatim>\<open>{}\<close> the block renders nothing, no marker either.
  \<^item> When moreover the rankings are absent or empty, the candidate's id is accepted in
    the path of the career request, and the web link is absent, the block ends with
    the career heading and its one career element: nothing stands for the link.
  \<^item> For a selected candidate that has a name and a team, with no image reference in
    the details: the header shows name and team, the date of birth or \<^verbatim>\<open>N/A\<close>, and
    the picture built from the candidate's face image id or, when that id is absent
    or empty, the \<^verbatim>\<open>No Image\<close> placeholder; it raises nothing.
  The counterexample after the witness is a profile whose only absent field is the web
  link: nothing stands for it on the page.
\<close>

theorem profile_absent_fields:
  "(kvs \<noteq> [] \<longrightarrow>
      take 6 (fst (details_block api selected_player (PDict kvs))) =
       [Subheader ''Player Details'',
        Write [Lit ''**Role:** '',
               Val (case map_of kvs ''role'' of Some v \<Rightarrow> v | None \<Rightarrow> PStr ''N/A'')],
        Write [Lit ''**Batting Style:** '',
               Val (case map_of kvs ''bat'' of Some v \<Rightarrow> v | None \<Rightarrow> PStr ''N/A'')],
        Write [Lit ''**Bowling Style:** '',
               Val (case map_of kvs ''bowl'' of Some v \<Rightarrow> v | None \<Rightarrow> PStr ''N/A'')],
        Write [Lit ''**Teams:** '',
               Val (case map_of kvs ''teams'' of Some v \<Rightarrow> v | None \<Rightarrow> PStr ''N/A'')],
        Write [Lit ''**Birth Place:** '',
               Val (case map_of kvs ''birthPlace'' of Some v \<Rightarrow> v | None \<Rightarrow> PStr ''N/A'')]]) \<and>
   details_block api selected_player (PDict []) = ([], Done) \<and>
   (kvs \<noteq> [] \<and> (map_of kvs ''rankings'' = None \<or>
          (\<exists>r. map_of kvs ''rankings'' = Some r \<and> \<not> truthy r)) \<and>
    getitem selected_player ''id'' = Return player_id \<and>
    conn_request ''/stats/v1/player/'' player_id ''/career'' = Return () \<and>
    map_of kvs ''webURL'' = None \<longrightarrow>
      (\<exists>es. details_block api selected_player (PDict kvs) =
         ([Subheader ''Player Details'',
        Write [Lit ''**Role:** '',
               Val (case map_of kvs ''role'' of Some v \<Rightarrow> v | None \<Rightarrow> PStr ''N/A'')],
        Write [Lit ''**Batting Style:** '',
               Val (case map_of kvs ''bat'' of Some v \<Rightarrow> v | None \<Rightarrow> PStr ''N/A'')],
        Write [Lit ''**Bowling Style:** '',
               Val (case map_of kvs ''bowl'' of Some v \<Rightarrow> v | None \<Rightarrow> PStr ''N/A'')],
        Write [Lit ''**Teams:** '',
               Val (case map_of kvs ''teams'' of Some v \<Rightarrow> v | None \<Rightarrow> PStr ''N/A'')],
        Write [Lit ''**Birth Place:** '',
               Val (case map_of kvs ''birthPlace'' of Some v \<Rightarrow> v | None \<Rightarrow> PStr ''N/A'')]] @
          Subheader ''Career Debut Information'' # es, Done) \<and>
         (es = [Warning ''Could not load career debut information.''] \<or>
        es = [Warning ''No career debut information available.''] \<or>
        (\<exists>df. es = [Dataframe df])))) \<and>
   (map_of skvs ''name'' = Some name \<and> map_of skvs ''teamName'' = Some team \<and>
    map_of kvs ''image'' = None \<and>
    (map_of skvs ''faceImageId'' = None \<or>
     (\<exists>face. map_of skvs ''faceImageId'' = Some face \<and> \<not> truthy face)) \<longrightarrow>
      profile_header (PDict skvs) (PDict kvs) =
        ([Write [Lit ''### '', Val name, Lit '' ('', Val team, Lit '')''],
          Write [Lit ''DOB: '',
                 Val (case map_of skvs ''dob'' of Some v \<Rightarrow> v | None \<Rightarrow> PStr ''N/A'')],
          Image [Lit ''https://placehold.co/150x150/800000/FFFFFF?text=No+Image''] 150], Done)) \<and>
   (map_of skvs ''name'' = Some name \<and> map_of skvs ''teamName'' = Some team \<and>
    map_of kvs ''image'' = None \<and> map_of skvs ''faceImageId'' = Some face \<and> truthy face \<longrightarrow>
      profile_header (PDict skvs) (PDict kvs) =
        ([Write [Lit ''### '', Val name, Lit '' ('', Val team, Lit '')''],
          Write [Lit ''DOB: '',
                 Val (case map_of skvs ''dob'' of Some v \<Rightarrow> v | None \<Rightarrow> PStr ''N/A'')],
          Image [Lit ''https://www.cricbuzz.com/a/img/v1/152x152/i1/c'', Val face,
                 Lit ''.jpg''] 150], Done))"
proof (intro conjI impI)
  assume "kvs \<noteq> []"
  then show "take 6 (fst (details_block api selected_player (PDict kvs))) =
       [Subheader ''Player Details'',
        Write [Lit ''**Role:** '',
               Val (case map_of kvs ''role'' of Some v \<Rightarrow> v | None \<Rightarrow> PStr ''N/A'')],
        Write [Lit ''**Batting Style:** '',
               Val (case map_of kvs ''bat'' of Some v \<Rightarrow> v | None \<Rightarrow> PStr ''N/A'')],
        Write [Lit ''**Bowling Style:** '',
               Val (case map_of kvs ''bowl'' of Some v \<Rightarrow> v | None \<Rightarrow> PStr ''N/A'')],
        Write [Lit ''**Teams:** '',
               Val (case map_of kvs ''teams'' of Some v \<Rightarrow> v | None \<Rightarrow> PStr ''N/A'')],
        Write [Lit ''**Birth Place:** '',
               Val (case map_of kvs ''birthPlace'' of Some v \<Rightarrow> v | None \<Rightarrow> PStr ''N/A'')]]"
    by (simp add: details_block_fields_first profile_fields_dict)
next
  show "details_block api selected_player (PDict []) = ([], Done)"
    by (simp add: details_block_def render_def)
next
  assume h: "kvs \<noteq> [] \<and> (map_of kvs ''rankings'' = None \<or>
          (\<exists>r. map_of kvs ''rankings'' = Some r \<and> \<not> truthy r)) \<and>
    getitem selected_player ''id'' = Return player_id \<and>
    conn_request ''/stats/v1/player/'' player_id ''/career'' = Return () \<and>
    map_of kvs ''webURL'' = None"
  define es where "es =
    (case career_table (api (Career player_id)) of
       Return es \<Rightarrow> es
     | Raise e \<Rightarrow> [Warning ''Could not load career debut information.'']
     | Beyond \<Rightarrow> [])"
  from h have "details_block api selected_player (PDict kvs) =
     (fst (profile_fields (PDict kvs)) @
      Subheader ''Career Debut Information'' # es @ fst (web_link (PDict kvs)), Done)"
    unfolding es_def by (intro details_block_shape) simp_all
  with h have block: "details_block api selected_player (PDict kvs) =
         ([Subheader ''Player Details'',
        Write [Lit ''**Role:** '',
               Val (case map_of kvs ''role'' of Some v \<Rightarrow> v | None \<Rightarrow> PStr ''N/A'')],
        Write [Lit ''**Batting Style:** '',
               Val (case map_of kvs ''bat'' of Some v \<Rightarrow> v | None \<Rightarrow> PStr ''N/A'')],
        Write [Lit ''**Bowling Style:** '',
               Val (case map_of kvs ''bowl'' of Some v \<Rightarrow> v | None \<Rightarrow> PStr ''N/A'')],
        Write [Lit ''**Teams:** '',
               Val (case map_of kvs ''teams'' of Some v \<Rightarrow> v | None \<Rightarrow> PStr ''N/A'')],
        Write [Lit ''**Birth Place:** '',
               Val (case map_of kvs ''birthPlace'' of Some v \<Rightarrow> v | None \<Rightarrow> PStr ''N/A'')]] @
          Subheader ''Career Debut Information'' # es, Done)"
    by (simp add: profile_fields_dict web_link_dict)
  have one: "es = [Warning ''Could not load career debut information.''] \<or>
        es = [Warning ''No career debut information available.''] \<or>
        (\<exists>df. es = [Dataframe df])"
    using career_elements [of "api (Career player_id)" es] by (simp add: es_def)
  show "\<exists>es. details_block api selected_player (PDict kvs) =
         ([Subheader ''Player Details'',
        Write [Lit ''**Role:** '',
               Val (case map_of kvs ''role'' of Some v \<Rightarrow> v | None \<Rightarrow> PStr ''N/A'')],
        Write [Lit ''**Batting Style:** '',
               Val (case map_of kvs ''bat'' of Some v \<Rightarrow> v | None \<Rightarrow> PStr ''N/A'')],
        Write [Lit ''**Bowling Style:** '',
               Val (case map_of kvs ''bowl'' of Some v \<Rightarrow> v | None \<Rightarrow> PStr ''N/A'')],
        Write [Lit ''**Teams:** '',
               Val (case map_of kvs ''teams'' of Some v \<Rightarrow> v | None \<Rightarrow> PStr ''N/A'')],
        Write [Lit ''**Birth Place:** '',
               Val (case map_of kvs ''birthPlace'' of Some v \<Rightarrow> v | None \<Rightarrow> PStr ''N/A'')]] @
          Subheader ''Career Debut Information'' # es, Done) \<and>
         (es = [Warning ''Could not load career debut information.''] \<or>
        es = [Warning ''No career debut information available.''] \<or>
        (\<exists>df. es = [Dataframe df]))"
    apply (intro exI [of _ es] conjI)
     apply (rule block)
    apply (rule one)
    done
next
  assume "map_of skvs ''name'' = Some name \<and> map_of skvs ''teamName'' = Some team \<and>
    map_of kvs ''image'' = None \<and>
    (map_of skvs ''faceImageId'' = None \<or>
     (\<exists>face. map_of skvs ''faceImageId'' = Some face \<and> \<not> truthy face))"
  then show "profile_header (PDict skvs) (PDict kvs) =
        ([Write [Lit ''### '', Val name, Lit '' ('', Val team, Lit '')''],
          Write [Lit ''DOB: '',
                 Val (case map_of skvs ''dob'' of Some v \<Rightarrow> v | None \<Rightarrow> PStr ''N/A'')],
          Image [Lit ''https://placehold.co/150x150/800000/FFFFFF?text=No+Image''] 150], Done)"
    by (auto simp add: profile_header_def player_image_def no_image_def render_def in_dict_iff
          simp del: map_of_eq_None_iff split: option.splits)
next
  assume "map_of skvs ''name'' = Some name \<and> map_of skvs ''teamName'' = Some team \<and>
    map_of kvs ''image'' = None \<and> map_of skvs ''faceImageId'' = Some face \<and> truthy face"
  then show "profile_header (PDict skvs) (PDict kvs) =
        ([Write [Lit ''### '', Val name, Lit '' ('', Val team, Lit '')''],
          Write [Lit ''DOB: '',
                 Val (case map_of skvs ''dob'' of Some v \<Rightarrow> v | None \<Rightarrow> PStr ''N/A'')],
          Image [Lit ''https://www.cricbuzz.com/a/img/v1/152x152/i1/c'', Val face,
                 Lit ''.jpg''] 150], Done)"
    by (auto simp add: profile_header_def player_image_def no_image_def render_def in_dict_iff
          simp del: map_of_eq_None_iff split: option.splits)
qed

theorem profile_absent_fields_witness:
  "take 6 (fst (details_block
       (\<lambda>r. \<lparr>status_code = 200, json = None\<rparr>)
       (PDict [(''id'', PInt 1413), (''name'', PStr ''Virat Kohli''),
               (''teamName'', PStr ''India'')])
       (PDict [(''role'', PStr ''Batsman'')]))) =
     [Subheader ''Player Details'',
      Write [Lit ''**Role:** '', Val (PStr ''Batsman'')],
      Write [Lit ''**Batting Style:** '', Val (PStr ''N/A'')],
      Write [Lit ''**Bowling Style:** '', Val (PStr ''N/A'')],
      Write [Lit ''**Teams:** '', Val (PStr ''N/A'')],
      Write [Lit ''**Birth Place:** '', Val (PStr ''N/A'')]] \<and>
   details_block
       (\<lambda>r. \<lparr>status_code = 200, json = None\<rparr>)
       (PDict [(''id'', PInt 1413), (''name'', PStr ''Virat Kohli''),
               (''teamName'', PStr ''India'')])
       (PDict [(''role'', PStr ''Batsman'')]) =
     ([Subheader ''Player Details'',
       Write [Lit ''**Role:** '', Val (PStr ''Batsman'')],
       Write [Lit ''**Batting Style:** '', Val (PStr ''N/A'')],
       Write [Lit ''**Bowling Style:** '', Val (PStr ''N/A'')],
       Write [Lit ''**Teams:** '', Val (PStr ''N/A'')],
       Write [Lit ''**Birth Place:** '', Val (PStr ''N/A'')],
       Subheader ''Career Debut Information'',
       Warning ''Could not load career debut information.''], Done) \<and>
   profile_header
       (PDict [(''id'', PInt 1413), (''name'', PStr ''Virat Kohli''),
               (''teamName'', PStr ''India'')])
       (PDict [(''role'', PStr ''Batsman'')]) =
     ([Write [Lit ''### '', Val (PStr ''Virat Kohli''), Lit '' ('', Val (PStr ''India''), Lit '')''],
       Write [Lit ''DOB: '', Val (PStr ''N/A'')],
       Image [Lit ''https://placehold.co/150x150/800000/FFFFFF?text=No+Image''] 150], Done) \<and>
   profile_header
       (PDict [(''name'', PStr ''Virat Kohli''), (''teamName'', PStr ''India''),
               (''faceImageId'', PInt 170661)])
       (PDict [(''role'', PStr ''Batsman'')]) =
     ([Write [Lit ''### '', Val (PStr ''Virat Kohli''), Lit '' ('', Val (PStr ''India''), Lit '')''],
       Write [Lit ''DOB: '', Val (PStr ''N/A'')],
       Image [Lit ''https://www.cricbuzz.com/a/img/v1/152x152/i1/c'', Val (PInt 170661),
              Lit ''.jpg''] 150], Done)"
proof -
  let ?api = "\<lambda>r::request. \<lparr>status_code = 200::int, json = None::pyval option\<rparr>"
  let ?sp = "PDict [(''id'', PInt 1413), (''name'', PStr ''Virat Kohli''),
               (''teamName'', PStr ''India'')]"
  let ?kvs = "[(''role'', PStr ''Batsman'')]"
  have ok: "putrequest ''/stats/v1/player//career'' = Return ()"
    by (simp add: putrequest_def disallowed_def non_ascii_def)
  note t = profile_absent_fields
    [of ?kvs ?api ?sp "PInt 1413"
        "[(''id'', PInt 1413), (''name'', PStr ''Virat Kohli''), (''teamName'', PStr ''India'')]"
        "PStr ''Virat Kohli''" "PStr ''India''"]
  note u = profile_absent_fields
    [of ?kvs ?api ?sp "PInt 1413"
        "[(''name'', PStr ''Virat Kohli''), (''teamName'', PStr ''India''),
          (''faceImageId'', PInt 170661)]"
        "PStr ''Virat Kohli''" "PStr ''India''" "PInt 170661"]
  from t ok have fields: "take 6 (fst (details_block ?api ?sp (PDict ?kvs))) =
     [Subheader ''Player Details'',
      Write [Lit ''**Role:** '', Val (PStr ''Batsman'')],
      Write [Lit ''**Batting Style:** '', Val (PStr ''N/A'')],
      Write [Lit ''**Bowling Style:** '', Val (PStr ''N/A'')],
      Write [Lit ''**Teams:** '', Val (PStr ''N/A'')],
      Write [Lit ''**Birth Place:** '', Val (PStr ''N/A'')]]"
    by simp
  have block: "details_block ?api ?sp (PDict ?kvs) =
     ([Subheader ''Player Details'',
       Write [Lit ''**Role:** '', Val (PStr ''Batsman'')],
       Write [Lit ''**Batting Style:** '', Val (PStr ''N/A'')],
       Write [Lit ''**Bowling Style:** '', Val (PStr ''N/A'')],
       Write [Lit ''**Teams:** '', Val (PStr ''N/A'')],
       Write [Lit ''**Birth Place:** '', Val (PStr ''N/A'')],
       Subheader ''Career Debut Information'',
       Warning ''Could not load career debut information.''], Done)"
    using ok
    by (simp add: details_block_def profile_fields_def write_field_def rankings_section_def
          career_section_def career_table_def loads_def web_link_def render_def)
  from t have header: "profile_header ?sp (PDict ?kvs) =
     ([Write [Lit ''### '', Val (PStr ''Virat Kohli''), Lit '' ('', Val (PStr ''India''), Lit '')''],
       Write [Lit ''DOB: '', Val (PStr ''N/A'')],
       Image [Lit ''https://placehold.co/150x150/800000/FFFFFF?text=No+Image''] 150], Done)"
    by simp
  from u have face: "profile_header
       (PDict [(''name'', PStr ''Virat Kohli''), (''teamName'', PStr ''India''),
               (''faceImageId'', PInt 170661)])
       (PDict ?kvs) =
     ([Write [Lit ''### '', Val (PStr ''Virat Kohli''), Lit '' ('', Val (PStr ''India''), Lit '')''],
       Write [Lit ''DOB: '', Val (PStr ''N/A'')],
       Image [Lit ''https://www.cricbuzz.com/a/img/v1/152x152/i1/c'', Val (PInt 170661),
              Lit ''.jpg''] 150], Done)"
    by simp
  from fields block header face show ?thesis by simp
qed

theorem absent_web_link_leaves_no_marker:
  "profile_tab
     (\<lambda>r. \<lparr>status_code = 200, json = Some (PDict [(''values'', PList
        [PDict [(''name'', PStr ''test''), (''debut'', PStr ''2011''),
                (''lastPlayed'', PStr ''2024'')]])])\<rparr>)
     (PDict [(''id'', PInt 1413), (''name'', PStr ''Virat Kohli''),
             (''teamName'', PStr ''India''), (''dob'', PStr ''1988-11-05'')])
     (PDict [(''role'', PStr ''Batsman''), (''bat'', PStr ''Right Handed Bat''),
             (''bowl'', PStr ''Right-arm medium''), (''teams'', PStr ''India''),
             (''birthPlace'', PStr ''Delhi''), (''image'', PStr ''http://img/kohli.jpg'')])
   = ([Write [Lit ''### '', Val (PStr ''Virat Kohli''), Lit '' ('', Val (PStr ''India''), Lit '')''],
       Write [Lit ''DOB: '', Val (PStr ''1988-11-05'')],
       Image [Val (PStr ''https://img/kohli.jpg'')] 150,
       Subheader ''Player Details'',
       Write [Lit ''**Role:** '', Val (PStr ''Batsman'')],
       Write [Lit ''**Batting Style:** '', Val (PStr ''Right Handed Bat'')],
       Write [Lit ''**Bowling Style:** '', Val (PStr ''Right-arm medium'')],
       Write [Lit ''**Teams:** '', Val (PStr ''India'')],
       Write [Lit ''**Birth Place:** '', Val (PStr ''Delhi'')],
       Subheader ''Career Debut Information'',
       Dataframe \<lparr>columns = [PStr ''Format'', PStr ''Debut'', PStr ''Last Played''],
                  rows = [[Stored (PStr ''test''), Stored (PStr ''2011''),
                           Stored (PStr ''2024'')]]\<rparr>], Done)"
  by (simp add: profile_tab_def profile_header_def player_image_def str_replace_def
        details_block_def profile_fields_def write_field_def rankings_section_def
        career_section_def career_table_def career_row_def loads_def DataFrame_def
        putrequest_def disallowed_def non_ascii_def
        widest_def pad_def web_link_def render_def)

section \<open>The search and its candidates\<close>



text \<open>
  Claim C6, as the code has it.  Let the name be non-empty and accepted by the HTTP
  client in the path of the search request (no control character, no space, ASCII
  only), so that there is a response.  When the body is undecodable, or decodes to an
  object without the player key, or to an object whose player entry is empty in
  Python's sense (an empty list, \<^verbatim>\<open>null\<close>), the page renders its title, the text box
  and the warning that no players were found; no select box is offered, and the run
  ends without an exception.  When the body decodes to \<^verbatim>\<open>null\<close>, a boolean or a number,
  the membership test on it raises \<^verbatim>\<open>TypeError\<close> after the title and the text box.  The
  counterexample after the witness is such an empty response, the body \<^verbatim>\<open>null\<close>.
\<close>

theorem show_top_stats_no_players:
  assumes "player_name \<noteq> []" and "putrequest player_name = Return ()"
  shows
   "(json (api (Search player_name)) = None \<or>
     (\<exists>kvs. json (api (Search player_name)) = Some (PDict kvs) \<and>
        (map_of kvs ''player'' = None \<or>
         (\<exists>v. map_of kvs ''player'' = Some v \<and> \<not> truthy v))) \<longrightarrow>
      show_top_stats api player_name pick =
        ([Title ''Player Stats & Profile'',
          Text_input ''Enter player name (e.g. Kohli, Dhoni, Smith):'',
          Warning ''No players found. Try another name.''], Done)) \<and>
    (json (api (Search player_name)) = Some body \<and> body \<in> {PNone, PBool b, PInt i, PFloat q} \<longrightarrow>
      show_top_stats api player_name pick =
        ([Title ''Player Stats & Profile'',
          Text_input ''Enter player name (e.g. Kohli, Dhoni, Smith):''], Raised TypeError))"
proof (intro conjI impI)
  assume "json (api (Search player_name)) = None \<or>
     (\<exists>kvs. json (api (Search player_name)) = Some (PDict kvs) \<and>
        (map_of kvs ''player'' = None \<or>
         (\<exists>v. map_of kvs ''player'' = Some v \<and> \<not> truthy v)))"
  then consider
      (undecodable) "json (api (Search player_name)) = None"
    | (no_key) kvs where "json (api (Search player_name)) = Some (PDict kvs)"
        "map_of kvs ''player'' = None"
    | (no_candidates) kvs v where "json (api (Search player_name)) = Some (PDict kvs)"
        "map_of kvs ''player'' = Some v" "\<not> truthy v"
    by (elim disjE exE conjE) simp_all
  then show "show_top_stats api player_name pick =
        ([Title ''Player Stats & Profile'',
          Text_input ''Enter player name (e.g. Kohli, Dhoni, Smith):'',
          Warning ''No players found. Try another name.''], Done)"
  proof cases
    case undecodable
    with assms show ?thesis
      by (simp add: show_top_stats_def search_players_sent loads_def render_def no_players_def)
  next
    case no_key
    with assms show ?thesis
      by (simp add: show_top_stats_def search_players_sent loads_def render_def no_players_def
            in_dict_iff del: map_of_eq_None_iff)
  next
    case no_candidates
    with assms show ?thesis
      by (simp add: show_top_stats_def search_players_sent loads_def render_def no_players_def
            in_dict_iff del: map_of_eq_None_iff)
  qed
next
  assume "json (api (Search player_name)) = Some body \<and> body \<in> {PNone, PBool b, PInt i, PFloat q}"
  with assms show "show_top_stats api player_name pick =
        ([Title ''Player Stats & Profile'',
          Text_input ''Enter player name (e.g. Kohli, Dhoni, Smith):''], Raised TypeError)"
    by (auto simp add: show_top_stats_def search_players_sent loads_def render_def)
qed

theorem show_top_stats_no_players_witness:
  "show_top_stats
     (\<lambda>r. \<lparr>status_code = 200, json = Some (PDict [(''player'', PList [])])\<rparr>)
     ''NonexistentPlayerXYZ'' 0 =
     ([Title ''Player Stats & Profile'',
       Text_input ''Enter player name (e.g. Kohli, Dhoni, Smith):'',
       Warning ''No players found. Try another name.''], Done) \<and>
   show_top_stats (\<lambda>r. \<lparr>status_code = 200, json = Some (PInt 7)\<rparr>) ''NonexistentPlayerXYZ'' 0 =
     ([Title ''Player Stats & Profile'',
       Text_input ''Enter player name (e.g. Kohli, Dhoni, Smith):''], Raised TypeError)"
proof -
  have name: "''NonexistentPlayerXYZ'' \<noteq> []" by simp
  have sent: "putrequest ''NonexistentPlayerXYZ'' = Return ()"
    by (simp add: putrequest_def disallowed_def non_ascii_def)
  from show_top_stats_no_players [OF name sent,
      where api = "\<lambda>r. \<lparr>status_code = 200, json = Some (PDict [(''player'', PList [])])\<rparr>"
        and pick = 0]
    show_top_stats_no_players [OF name sent,
      where api = "\<lambda>r. \<lparr>status_code = 200, json = Some (PInt 7)\<rparr>"
        and body = "PInt 7" and i = 7 and pick = 0]
  show ?thesis by simp
qed

theorem search_with_null_body_raises:
  "show_top_stats (\<lambda>r. \<lparr>status_code = 200, json = Some PNone\<rparr>) ''kohli'' 0 =
     ([Title ''Player Stats & Profile'',
       Text_input ''Enter player name (e.g. Kohli, Dhoni, Smith):''], Raised TypeError)"
  by (simp add: show_top_stats_def search_players_def loads_def render_def
        putrequest_def disallowed_def non_ascii_def)

text \<open>
  Claim C10, as the code has it.  When the HTTP client accepts the path of the request,
  \<open>search_players\<close> and \<open>get_player_details\<close> return the empty dict, and raise
  nothing, on a body that is not decodable; \<open>get_player_stats\<close> returns the empty dict on
  every status other than 200.  On a decodable body \<open>search_players\<close> and
  \<open>get_player_details\<close> return the decoded value as it is, so the result is a dict only
  if the body decodes to one: the counterexample after the witness is a search that
  returns a list.
\<close>

theorem fetch_helpers_on_failure:
  "(putrequest query = Return () \<and> json (api (Search query)) = None \<longrightarrow>
      search_players api query = Return (PDict [])) \<and>
   (conn_request ''/stats/v1/player/'' player_id [] = Return () \<and>
    json (api (Details player_id)) = None \<longrightarrow>
      get_player_details api player_id = Return (PDict [])) \<and>
   (status_code (api (Stats player_id stat_type)) \<noteq> 200 \<longrightarrow>
      get_player_stats api player_id stat_type = Return (PDict [])) \<and>
   (putrequest query = Return () \<and> json (api (Search query)) = Some v \<longrightarrow>
      search_players api query = Return v) \<and>
   (conn_request ''/stats/v1/player/'' player_id [] = Return () \<and>
    json (api (Details player_id)) = Some v \<longrightarrow>
      get_player_details api player_id = Return v)"
  by (simp add: search_players_sent get_player_details_def get_player_stats_def loads_def)

theorem fetch_helpers_on_failure_witness:
  "search_players (\<lambda>r. \<lparr>status_code = 500, json = None\<rparr>) ''kohli'' = Return (PDict []) \<and>
   get_player_details (\<lambda>r. \<lparr>status_code = 500, json = None\<rparr>) (PStr ''1413'') = Return (PDict []) \<and>
   get_player_stats (\<lambda>r. \<lparr>status_code = 500, json = None\<rparr>) (PStr ''1413'') ''batting''
     = Return (PDict []) \<and>
   search_players (\<lambda>r. \<lparr>status_code = 200, json = Some (PDict [(''player'', PList [])])\<rparr>)
     ''kohli'' = Return (PDict [(''player'', PList [])]) \<and>
   get_player_details (\<lambda>r. \<lparr>status_code = 200, json = Some (PDict [(''role'', PStr ''Batsman'')])\<rparr>)
     (PStr ''1413'') = Return (PDict [(''role'', PStr ''Batsman'')])"
proof -
  have q: "putrequest ''kohli'' = Return ()"
    by (simp add: putrequest_def disallowed_def non_ascii_def)
  have i: "conn_request ''/stats/v1/player/'' (PStr ''1413'') [] = Return ()"
    by (simp add: putrequest_def disallowed_def non_ascii_def)
  from q i
    fetch_helpers_on_failure
      [of "''kohli''" "\<lambda>r. \<lparr>status_code = 500, json = None\<rparr>" "PStr ''1413''" "''batting''"]
    fetch_helpers_on_failure
      [of "''kohli''" "\<lambda>r. \<lparr>status_code = 200, json = Some (PDict [(''player'', PList [])])\<rparr>"
          "PStr ''1413''" _ "PDict [(''player'', PList [])]"]
    fetch_helpers_on_failure
      [of "''kohli''" "\<lambda>r. \<lparr>status_code = 200, json = Some (PDict [(''role'', PStr ''Batsman'')])\<rparr>"
          "PStr ''1413''" _ "PDict [(''role'', PStr ''Batsman'')]"]
  show ?thesis by simp
qed

theorem search_players_returns_a_list:
  "search_players (\<lambda>r. \<lparr>status_code = 200, json = Some (PList [])\<rparr>) ''kohli'' = Return (PList [])"
  by (simp add: search_players_def loads_def putrequest_def disallowed_def non_ascii_def)

section \<open>The SQL page\<close>

text \<open>
  Claim C8, as the code has it.  For every query text and connection one of three
  things happens.  The database answers with a frame: \<open>run_query\<close> returns that frame,
  whatever its number of rows, and renders nothing, and the handler of the button, for
  a text that is not blank, shows it as a success.  The database fails with an exception of class \<^verbatim>\<open>Exception\<close>:
  \<open>run_query\<close> returns \<^verbatim>\<open>None\<close> with the error element that carries the exception's
  text, and the handler adds a second error element.  The query is interrupted:
  \<^verbatim>\<open>KeyboardInterrupt\<close> is not of class \<^verbatim>\<open>Exception\<close> and leaves \<open>run_query\<close>.  The
  database is asked exactly the text \<open>run_query\<close> was given: its result depends on the
  database only through the answer to that text on that connection.  The counterexample
  after the witness is a query with no result rows: the empty frame comes back as a
  success, neither populated nor a failure signal.
\<close>

theorem run_query_outcome:
  "((\<exists>df. read_sql query conn = Inr df \<and>
           run_query read_sql conn query = (Return (Some df), []) \<and>
           (\<not> list_all isspace query \<longrightarrow>
              run_button isspace read_sql conn query =
                ([Subheader ''Query Results'', Dataframe df,
                  Success ''Query executed successfully!''], Done))) \<or>
    (\<exists>e. read_sql query conn = Inl (Exception e) \<and>
          run_query read_sql conn query =
            (Return None, [Error [Lit ''Query Error: '', Val (PStr e)]]) \<and>
          (\<not> list_all isspace query \<longrightarrow>
             run_button isspace read_sql conn query =
               ([Error [Lit ''Query Error: '', Val (PStr e)],
                 Error [Lit ''Query failed. Please check your SQL syntax or database tables.'']],
                Done))) \<or>
    (read_sql query conn = Inl Interrupt \<and>
     run_query read_sql conn query = (Raise KeyboardInterrupt, []))) \<and>
   (read_sql' query conn = read_sql query conn \<longrightarrow>
      run_query read_sql' conn query = run_query read_sql conn query)"
proof (cases "read_sql query conn")
  case (Inl f)
  then show ?thesis
    by (cases f) (simp_all add: run_query_def run_button_def render_def)
next
  case (Inr df)
  then show ?thesis
    by (simp add: run_query_def run_button_def render_def)
qed

theorem run_query_outcome_witness:
  "run_query (\<lambda>q c. if q = ''SELECT 1'' then Inr \<lparr>columns = [PStr ''1''], rows = [[Stored (PInt 1)]]\<rparr>
                     else Inl (Exception ''syntax error'')) () ''SELECT 1''
     = (Return (Some \<lparr>columns = [PStr ''1''], rows = [[Stored (PInt 1)]]\<rparr>), []) \<and>
   run_query (\<lambda>q c. if q = ''SELECT 1'' then Inr \<lparr>columns = [PStr ''1''], rows = [[Stored (PInt 1)]]\<rparr>
                     else Inl (Exception ''syntax error'')) () ''SELEC 1''
     = (Return None, [Error [Lit ''Query Error: '', Val (PStr ''syntax error'')]]) \<and>
   run_button (\<lambda>c. c = CHR '' '')
     (\<lambda>q c. if q = ''SELECT 1'' then Inr \<lparr>columns = [PStr ''1''], rows = [[Stored (PInt 1)]]\<rparr>
             else Inl (Exception ''syntax error'')) () ''SELEC 1''
     = ([Error [Lit ''Query Error: '', Val (PStr ''syntax error'')],
         Error [Lit ''Query failed. Please check your SQL syntax or database tables.'']], Done)"
  using run_query_outcome
      [of "\<lambda>q c. if q = ''SELECT 1'' then Inr \<lparr>columns = [PStr ''1''], rows = [[Stored (PInt 1)]]\<rparr>
                  else Inl (Exception ''syntax error'')" "''SELECT 1''" "()" "\<lambda>c. c = CHR '' ''"]
    run_query_outcome
      [of "\<lambda>q c. if q = ''SELECT 1'' then Inr \<lparr>columns = [PStr ''1''], rows = [[Stored (PInt 1)]]\<rparr>
                  else Inl (Exception ''syntax error'')" "''SELEC 1''" "()" "\<lambda>c. c = CHR '' ''"]
  by simp

theorem run_query_returns_an_empty_table:
  "run_query (\<lambda>q c. Inr \<lparr>columns = [PStr ''player_name''], rows = []\<rparr>) ()
     ''SELECT player_name FROM top_odi_runs WHERE 1 = 0''
     = (Return (Some \<lparr>columns = [PStr ''player_name''], rows = []\<rparr>), []) \<and>
   empty \<lparr>columns = [PStr ''player_name''], rows = []\<rparr> \<and>
   run_button (\<lambda>c. c = CHR '' '') (\<lambda>q c. Inr \<lparr>columns = [PStr ''player_name''], rows = []\<rparr>) ()
     ''SELECT player_name FROM top_odi_runs WHERE 1 = 0''
     = ([Subheader ''Query Results'',
         Dataframe \<lparr>columns = [PStr ''player_name''], rows = []\<rparr>,
         Success ''Query executed successfully!''], Done)"
  by (simp add: run_query_def run_button_def render_def empty_def)

end
